theory Spec2Isabelle
  imports Complex_Main
begin

section \<open>JavaScript values\<close>

text \<open>
  The login server (\<^verbatim>\<open>src/login-server/server.js\<close>) passes parsed JSON documents
  around and inspects them with property reads, optional chaining, \<^verbatim>\<open>||\<close> and
  truthiness tests. The values are modelled as a datatype; \<open>JUndefined\<close> is the value
  of a missing property. A number is the finite value it denotes; an object is the
  list of its members in order, a key bound by its first entry.
\<close>

datatype json =
    JUndefined
  | JNull
  | JBool bool
  | JNum rat
  | JStr string
  | JArr "json list"
  | JObj "(string \<times> json) list"

text \<open>ToBoolean: what \<^verbatim>\<open>!x\<close>, \<^verbatim>\<open>if (x)\<close> and \<^verbatim>\<open>x || y\<close> test.\<close>

fun truthy :: "json \<Rightarrow> bool" where
  "truthy JUndefined = False"
| "truthy JNull = False"
| "truthy (JBool b) = b"
| "truthy (JNum n) = (n \<noteq> 0)"
| "truthy (JStr s) = (s \<noteq> [])"
| "truthy (JArr xs) = True"
| "truthy (JObj kvs) = True"

text \<open>\<^verbatim>\<open>x || y\<close>.\<close>

definition or_else :: "json \<Rightarrow> json \<Rightarrow> json" where
  "or_else x y = (if truthy x then x else y)"

text \<open>
  The message of the TypeError that Node raises for a property read on
  \<^verbatim>\<open>undefined\<close> or \<^verbatim>\<open>null\<close>.
\<close>

definition cannot_read :: "string \<Rightarrow> string \<Rightarrow> string" where
  "cannot_read what key =
     ''Cannot read properties of '' @ what @ '' (reading '' @ [CHR 0x27] @ key @ [CHR 0x27] @ '')''"

text \<open>
  \<^verbatim>\<open>x.key\<close> for the property names the server reads. On \<^verbatim>\<open>undefined\<close> and
  \<^verbatim>\<open>null\<close> the read throws (\<open>Inl\<close> carries the TypeError's message); an object
  yields its member or \<^verbatim>\<open>undefined\<close>; arrays and strings have \<^verbatim>\<open>length\<close> and none
  of the other names; booleans and numbers have none of them.
\<close>

fun get_prop :: "json \<Rightarrow> string \<Rightarrow> string + json" where
  "get_prop JUndefined key = Inl (cannot_read ''undefined'' key)"
| "get_prop JNull key = Inl (cannot_read ''null'' key)"
| "get_prop (JObj kvs) key = Inr (case map_of kvs key of None \<Rightarrow> JUndefined | Some v \<Rightarrow> v)"
| "get_prop (JArr xs) key = Inr (if key = ''length'' then JNum (of_nat (length xs)) else JUndefined)"
| "get_prop (JStr s) key = Inr (if key = ''length'' then JNum (of_nat (length s)) else JUndefined)"
| "get_prop (JBool b) key = Inr JUndefined"
| "get_prop (JNum n) key = Inr JUndefined"

text \<open>
  \<^verbatim>\<open>x?.[0]\<close>: \<^verbatim>\<open>undefined\<close> when \<open>x\<close> is \<^verbatim>\<open>undefined\<close> or \<^verbatim>\<open>null\<close>, else the
  element at index 0 (of an array, of a string, or the member named \<^verbatim>\<open>0\<close>).
\<close>

fun opt_first :: "json \<Rightarrow> json" where
  "opt_first JUndefined = JUndefined"
| "opt_first JNull = JUndefined"
| "opt_first (JArr xs) = (case xs of [] \<Rightarrow> JUndefined | x # _ \<Rightarrow> x)"
| "opt_first (JStr s) = (case s of [] \<Rightarrow> JUndefined | c # _ \<Rightarrow> JStr [c])"
| "opt_first (JObj kvs) = (case map_of kvs ''0'' of None \<Rightarrow> JUndefined | Some v \<Rightarrow> v)"
| "opt_first (JBool b) = JUndefined"
| "opt_first (JNum n) = JUndefined"

text \<open>\<^verbatim>\<open>s.includes(p)\<close> on strings: \<open>p\<close> occurs in \<open>s\<close> as a contiguous run.\<close>

fun starts_with :: "string \<Rightarrow> string \<Rightarrow> bool" where
  "starts_with s [] = True"
| "starts_with [] (p # ps) = False"
| "starts_with (c # cs) (p # ps) = (c = p \<and> starts_with cs ps)"

fun str_includes :: "string \<Rightarrow> string \<Rightarrow> bool" where
  "str_includes [] p = (p = [])"
| "str_includes (c # cs) p = (starts_with (c # cs) p \<or> str_includes cs p)"

section \<open>The outside world\<close>

text \<open>
  Every operation of the server is a chain of calls to collaborators that are not part
  of the repository: the identity provider's token verification and the commerce
  platform's REST and GraphQL interfaces, reached through the HTTP client. They are
  parameters of the model. A collaborator answers a call from the current state of the
  world \<open>'w\<close> and leaves a new state; an answer is either a thrown error (\<open>Inl\<close>) or a
  value (\<open>Inr\<close>).
\<close>

datatype js_error = JsError (message: string) (stack: string)

datatype http_method = GET | POST | PUT

text \<open>
  A template literal is kept as its pieces: the literal text and the interpolated
  values, whose conversion to text is the runtime's.
\<close>

datatype piece = Lit string | Interp json

record request =
  rq_method :: http_method
  rq_url :: "piece list"
  rq_data :: json
  rq_headers :: "(string \<times> string) list"

text \<open>
  What the server reads of an HTTP client response: \<^verbatim>\<open>response.status\<close>,
  \<^verbatim>\<open>response.headers['content-type']\<close> (absent when the header is) and
  \<^verbatim>\<open>response.data\<close>.
\<close>

record response =
  rs_status :: nat
  rs_content_type :: "string option"
  rs_data :: json

datatype call = VerifyIdToken json string | Http request

text \<open>
  The configuration read at lines 13-16, the two collaborators, and the stack trace
  the runtime attaches to an error created with the given message.
\<close>

record 'w env =
  SHOPIFY_STORE_URL :: string
  SHOPIFY_ACCESS_TOKEN :: string
  SHOPIFY_STOREFRONT_ACCESS_TOKEN :: string
  GOOGLE_CLIENT_ID :: string
  verifyIdToken :: "json \<Rightarrow> string \<Rightarrow> 'w \<Rightarrow> (js_error + json) \<times> 'w"
  axios :: "request \<Rightarrow> 'w \<Rightarrow> (js_error + response) \<times> 'w"
  capture_stack :: "string \<Rightarrow> string"

text \<open>
  The state threaded through a request: the world, and the outbound calls made so far,
  oldest first.
\<close>

record 'w state =
  world :: 'w
  calls :: "call list"

definition new_error :: "'w env \<Rightarrow> string \<Rightarrow> js_error" where
  "new_error env msg = JsError msg (capture_stack env msg)"

text \<open>
  \<^verbatim>\<open>await client.verifyIdToken({ idToken, audience })\<close> followed by
  \<^verbatim>\<open>ticket.getPayload()\<close>: the collaborator yields the ticket's payload.
\<close>

definition verify_call :: "'w env \<Rightarrow> json \<Rightarrow> string \<Rightarrow> 'w state \<Rightarrow> (js_error + json) \<times> 'w state" where
  "verify_call env idToken audience st =
     (case verifyIdToken env idToken audience (world st) of
        (r, w') \<Rightarrow> (r, \<lparr>world = w', calls = calls st @ [VerifyIdToken idToken audience]\<rparr>))"

text \<open>\<^verbatim>\<open>await axios.get/post/put(...)\<close>.\<close>

definition axios_call :: "'w env \<Rightarrow> request \<Rightarrow> 'w state \<Rightarrow> (js_error + response) \<times> 'w state" where
  "axios_call env rq st =
     (case axios env rq (world st) of
        (r, w') \<Rightarrow> (r, \<lparr>world = w', calls = calls st @ [Http rq]\<rparr>))"

section \<open>The helpers of the server\<close>

text \<open>
  \<^verbatim>\<open>handleApiResponse\<close>, lines 38-48, and its test
  \<^verbatim>\<open>response.headers['content-type']?.includes('html')\<close> of line 42. Writing to the
  console, here and in the rest of the server, is not modelled.
\<close>

definition html_content_type :: "response \<Rightarrow> bool" where
  "html_content_type response =
     (case rs_content_type response of None \<Rightarrow> False | Some ct \<Rightarrow> str_includes ct ''html'')"

definition handleApiResponse :: "response \<Rightarrow> json" where
  "handleApiResponse response =
     (if html_content_type response
      then JObj [(''error'', JStr ''Expected JSON, received HTML. Likely a wrong endpoint or failed auth.'')]
      else rs_data response)"

text \<open>The request of \<^verbatim>\<open>findCustomerByEmail\<close>, lines 53-55.\<close>

definition search_request :: "'w env \<Rightarrow> json \<Rightarrow> request" where
  "search_request env email =
     \<lparr>rq_method = GET,
      rq_url = [Lit (SHOPIFY_STORE_URL env @ ''/admin/api/2023-10/customers/search.json?query=email:''),
                Interp email],
      rq_data = JUndefined,
      rq_headers = [(''X-Shopify-Access-Token'', SHOPIFY_ACCESS_TOKEN env)]\<rparr>"

text \<open>
  \<^verbatim>\<open>findCustomerByEmail\<close>, lines 51-64. The \<^verbatim>\<open>catch\<close> covers the whole body, so
  a rejected request and a TypeError of a property read both end in \<^verbatim>\<open>null\<close>.
\<close>

definition findCustomerByEmail :: "'w env \<Rightarrow> json \<Rightarrow> 'w state \<Rightarrow> json \<times> 'w state" where
  "findCustomerByEmail env email st =
     (case axios_call env (search_request env email) st of
        (Inl error, st') \<Rightarrow> (JNull, st')
      | (Inr response, st') \<Rightarrow>
          (let data = handleApiResponse response in
           (case get_prop data ''error'' of
              Inl t \<Rightarrow> (JNull, st')
            | Inr e \<Rightarrow>
                if truthy e then (JNull, st')
                else (case get_prop data ''customers'' of
                        Inl t \<Rightarrow> (JNull, st')
                      | Inr cs \<Rightarrow> (or_else (opt_first cs) JNull, st')))))"

text \<open>The request of \<^verbatim>\<open>createCustomer\<close>, lines 69-80.\<close>

definition create_request :: "'w env \<Rightarrow> json \<Rightarrow> json \<Rightarrow> json \<Rightarrow> request" where
  "create_request env given_name family_name email =
     \<lparr>rq_method = POST,
      rq_url = [Lit (SHOPIFY_STORE_URL env @ ''/admin/api/2023-10/customers.json'')],
      rq_data = JObj [(''customer'', JObj
        [(''first_name'', given_name),
         (''last_name'', family_name),
         (''email'', email),
         (''verified_email'', JBool True),
         (''password'', JStr ''Default@123''),
         (''password_confirmation'', JStr ''Default@123'')])],
      rq_headers = [(''X-Shopify-Access-Token'', SHOPIFY_ACCESS_TOKEN env)]\<rparr>"

text \<open>
  \<^verbatim>\<open>createCustomer\<close>, lines 67-89. The reads of \<^verbatim>\<open>payload\<close> are inside the
  \<^verbatim>\<open>try\<close>: on a \<^verbatim>\<open>null\<close> payload no request is sent.
\<close>

definition createCustomer :: "'w env \<Rightarrow> json \<Rightarrow> 'w state \<Rightarrow> json \<times> 'w state" where
  "createCustomer env payload st =
     (case get_prop payload ''given_name'' of
        Inl t \<Rightarrow> (JNull, st)
      | Inr given_name \<Rightarrow>
     (case get_prop payload ''family_name'' of
        Inl t \<Rightarrow> (JNull, st)
      | Inr family_name \<Rightarrow>
     (case get_prop payload ''email'' of
        Inl t \<Rightarrow> (JNull, st)
      | Inr email \<Rightarrow>
     (case axios_call env (create_request env given_name family_name email) st of
        (Inl error, st') \<Rightarrow> (JNull, st')
      | (Inr response, st') \<Rightarrow>
          (let data = handleApiResponse response in
           (case get_prop data ''error'' of
              Inl t \<Rightarrow> (JNull, st')
            | Inr e \<Rightarrow>
                if truthy e then (JNull, st')
                else (case get_prop data ''customer'' of
                        Inl t \<Rightarrow> (JNull, st')
                      | Inr c \<Rightarrow> (c, st'))))))))"

text \<open>The request of \<^verbatim>\<open>updateCustomerPassword\<close>, lines 94-102.\<close>

definition update_request :: "'w env \<Rightarrow> json \<Rightarrow> json \<Rightarrow> request" where
  "update_request env customerId newPassword =
     \<lparr>rq_method = PUT,
      rq_url = [Lit (SHOPIFY_STORE_URL env @ ''/admin/api/2023-10/customers/''),
                Interp customerId, Lit ''.json''],
      rq_data = JObj [(''customer'', JObj
        [(''id'', customerId),
         (''password'', newPassword),
         (''password_confirmation'', newPassword)])],
      rq_headers = [(''X-Shopify-Access-Token'', SHOPIFY_ACCESS_TOKEN env)]\<rparr>"

text \<open>\<^verbatim>\<open>updateCustomerPassword\<close>, lines 92-111.\<close>

definition updateCustomerPassword :: "'w env \<Rightarrow> json \<Rightarrow> json \<Rightarrow> 'w state \<Rightarrow> json \<times> 'w state" where
  "updateCustomerPassword env customerId newPassword st =
     (case axios_call env (update_request env customerId newPassword) st of
        (Inl error, st') \<Rightarrow> (JNull, st')
      | (Inr response, st') \<Rightarrow>
          (let data = handleApiResponse response in
           (case get_prop data ''error'' of
              Inl t \<Rightarrow> (JNull, st')
            | Inr e \<Rightarrow>
                if truthy e then (JNull, st')
                else (case get_prop data ''customer'' of
                        Inl t \<Rightarrow> (JNull, st')
                      | Inr c \<Rightarrow> (c, st')))))"

text \<open>The GraphQL document of lines 117-130, line by line as the template literal has it.\<close>

definition token_mutation :: string where
  "token_mutation =
     [CHR 0x0A] @
     ''                mutation customerAccessTokenCreate($input: CustomerAccessTokenCreateInput!) {'' @ [CHR 0x0A] @
     ''                    customerAccessTokenCreate(input: $input) {'' @ [CHR 0x0A] @
     ''                        customerAccessToken {'' @ [CHR 0x0A] @
     ''                            accessToken'' @ [CHR 0x0A] @
     ''                            expiresAt'' @ [CHR 0x0A] @
     ''                        }'' @ [CHR 0x0A] @
     ''                        userErrors {'' @ [CHR 0x0A] @
     ''                            field'' @ [CHR 0x0A] @
     ''                            message'' @ [CHR 0x0A] @
     ''                        }'' @ [CHR 0x0A] @
     ''                    }'' @ [CHR 0x0A] @
     ''                }'' @ [CHR 0x0A] @
     ''            ''"

text \<open>The request of \<^verbatim>\<open>createCustomerAccessToken\<close>, lines 116-137.\<close>

definition token_request :: "'w env \<Rightarrow> json \<Rightarrow> request" where
  "token_request env email =
     \<lparr>rq_method = POST,
      rq_url = [Lit (SHOPIFY_STORE_URL env @ ''/api/2024-04/graphql.json'')],
      rq_data = JObj
        [(''query'', JStr token_mutation),
         (''variables'', JObj [(''input'', JObj
            [(''email'', email),
             (''password'', JStr ''12$@565mnbvfethiwpldkao'')])])],
      rq_headers =
        [(''X-Shopify-Storefront-Access-Token'', SHOPIFY_STOREFRONT_ACCESS_TOKEN env),
         (''Content-Type'', ''application/json'')]\<rparr>"

text \<open>
  \<^verbatim>\<open>createCustomerAccessToken\<close>, lines 114-153. Every property read of lines 142-148
  is inside the \<^verbatim>\<open>try\<close>, so a response of another shape ends in \<^verbatim>\<open>null\<close> too.
\<close>

definition createCustomerAccessToken :: "'w env \<Rightarrow> json \<Rightarrow> 'w state \<Rightarrow> json \<times> 'w state" where
  "createCustomerAccessToken env email st =
     (case axios_call env (token_request env email) st of
        (Inl error, st') \<Rightarrow> (JNull, st')
      | (Inr response, st') \<Rightarrow>
          (let data = handleApiResponse response in
           (case get_prop data ''error'' of
              Inl t \<Rightarrow> (JNull, st')
            | Inr e \<Rightarrow>
                if truthy e then (JNull, st')
                else
           (case get_prop data ''data'' of
              Inl t \<Rightarrow> (JNull, st')
            | Inr d \<Rightarrow>
           (case get_prop d ''customerAccessTokenCreate'' of
              Inl t \<Rightarrow> (JNull, st')
            | Inr tokenData \<Rightarrow>
           (case get_prop tokenData ''userErrors'' of
              Inl t \<Rightarrow> (JNull, st')
            | Inr userErrors \<Rightarrow>
           (case get_prop userErrors ''length'' of
              Inl t \<Rightarrow> (JNull, st')
            | Inr n \<Rightarrow>
                if truthy n then (JNull, st')
                else
           (case get_prop tokenData ''customerAccessToken'' of
              Inl t \<Rightarrow> (JNull, st')
            | Inr customerAccessToken \<Rightarrow>
           (case get_prop customerAccessToken ''accessToken'' of
              Inl t \<Rightarrow> (JNull, st')
            | Inr accessToken \<Rightarrow> (accessToken, st'))))))))))"

section \<open>The login endpoint\<close>

text \<open>
  The response object of the web framework: the headers set so far, the status
  (200 until \<^verbatim>\<open>res.status\<close> changes it) and the value handed to \<^verbatim>\<open>res.json\<close>. The
  value is kept as the JavaScript object; on the wire a member whose value is
  \<^verbatim>\<open>undefined\<close> is left out.
\<close>

record reply =
  rp_headers :: "(string \<times> string) list"
  rp_status :: nat
  rp_body :: json

text \<open>
  A handler either sends its response or, being an \<^verbatim>\<open>async\<close> function, ends with an
  error thrown outside its \<^verbatim>\<open>try\<close>, in which case it has sent nothing.
\<close>

datatype outcome = Sent reply | Unhandled js_error

text \<open>
  Lines 175-188: the branch on the result of the lookup. A falsy result leads to
  \<^verbatim>\<open>createCustomer\<close>, any other to \<^verbatim>\<open>updateCustomerPassword\<close> with the customer's
  \<^verbatim>\<open>id\<close>; the customer the reply is built from is the created one on the first
  branch and the looked-up one on the second.
\<close>

definition provision :: "'w env \<Rightarrow> json \<Rightarrow> json \<Rightarrow> 'w state \<Rightarrow> (js_error + json) \<times> 'w state" where
  "provision env payload found st =
     (if \<not> truthy found then
        (case createCustomer env payload st of
           (customer, st') \<Rightarrow>
             if \<not> truthy customer
             then (Inl (new_error env ''Failed to create customer in Shopify''), st')
             else (Inr customer, st'))
      else
        (case get_prop found ''id'' of
           Inl t \<Rightarrow> (Inl (new_error env t), st)
         | Inr customerId \<Rightarrow>
             (case updateCustomerPassword env customerId (JStr ''Default@123'') st of
                (updatedCustomer, st') \<Rightarrow>
                  if \<not> truthy updatedCustomer
                  then (Inl (new_error env ''Failed to update customer password''), st')
                  else (Inr found, st'))))"

text \<open>Lines 198-208: the value handed to \<^verbatim>\<open>res.json\<close> on success.\<close>

definition success_body :: "'w env \<Rightarrow> json \<Rightarrow> json \<Rightarrow> js_error + json" where
  "success_body env customerToken customer =
     (case get_prop customer ''id'' of
        Inl t \<Rightarrow> Inl (new_error env t)
      | Inr cid \<Rightarrow>
     (case get_prop customer ''email'' of
        Inl t \<Rightarrow> Inl (new_error env t)
      | Inr cemail \<Rightarrow>
     (case get_prop customer ''first_name'' of
        Inl t \<Rightarrow> Inl (new_error env t)
      | Inr first_name \<Rightarrow>
     (case get_prop customer ''last_name'' of
        Inl t \<Rightarrow> Inl (new_error env t)
      | Inr last_name \<Rightarrow>
          Inr (JObj
            [(''success'', JBool True),
             (''token'', customerToken),
             (''redirectUrl'', JStr (SHOPIFY_STORE_URL env @ ''/account'')),
             (''customer'', JObj
                [(''id'', cid),
                 (''email'', cemail),
                 (''firstName'', first_name),
                 (''lastName'', last_name)])])))))"

text \<open>
  Lines 166-208, the body of the \<^verbatim>\<open>try\<close>: \<open>Inl\<close> is the error that reaches the
  \<^verbatim>\<open>catch\<close> of line 210, \<open>Inr\<close> the value handed to \<^verbatim>\<open>res.json\<close>.
\<close>

definition login_flow :: "'w env \<Rightarrow> json \<Rightarrow> 'w state \<Rightarrow> (js_error + json) \<times> 'w state" where
  "login_flow env token st =
     (case verify_call env token (GOOGLE_CLIENT_ID env) st of
        (Inl error, st1) \<Rightarrow> (Inl error, st1)
      | (Inr payload, st1) \<Rightarrow>
     (case get_prop payload ''email'' of
        Inl t \<Rightarrow> (Inl (new_error env t), st1)
      | Inr email \<Rightarrow>
     (case findCustomerByEmail env email st1 of
        (found, st2) \<Rightarrow>
     (case provision env payload found st2 of
        (Inl error, st3) \<Rightarrow> (Inl error, st3)
      | (Inr customer, st3) \<Rightarrow>
     (case createCustomerAccessToken env email st3 of
        (customerToken, st4) \<Rightarrow>
          if \<not> truthy customerToken
          then (Inl (new_error env ''Failed to generate customer access token''), st4)
          else (success_body env customerToken customer, st4))))))"

text \<open>
  The handler of \<^verbatim>\<open>POST /api/auth/google\<close>, lines 156-219, on \<^verbatim>\<open>req.body\<close> and the
  response object.
\<close>

definition auth_google :: "'w env \<Rightarrow> json \<Rightarrow> reply \<Rightarrow> 'w state \<Rightarrow> outcome \<times> 'w state" where
  "auth_google env body res st =
     (case get_prop body ''token'' of
        Inl t \<Rightarrow> (Unhandled (new_error env t), st)
      | Inr token \<Rightarrow>
          if \<not> truthy token
          then (Sent (res\<lparr>rp_status := 400,
                           rp_body := JObj [(''success'', JBool False),
                                            (''error'', JStr ''Token is required'')]\<rparr>), st)
          else
            (case login_flow env token st of
               (Inr b, st') \<Rightarrow> (Sent (res\<lparr>rp_body := b\<rparr>), st')
             | (Inl error, st') \<Rightarrow>
                 (Sent (res\<lparr>rp_status := 500,
                              rp_body := JObj [(''success'', JBool False),
                                               (''error'', JStr ''Authentication failed''),
                                               (''details'', JStr (message error)),
                                               (''stack'', JStr (stack error))]\<rparr>), st')))"

section \<open>The application\<close>

text \<open>
  What the application reads of an incoming request: \<^verbatim>\<open>req.method\<close>, the path, and
  \<^verbatim>\<open>req.body\<close> (\<^verbatim>\<open>undefined\<close> until a body parser has set it).
\<close>

record http_req =
  hr_method :: string
  hr_path :: string
  hr_body :: json

text \<open>
  A middleware either ends the response itself or calls \<^verbatim>\<open>next()\<close>, handing on the
  request and the response object as it has changed them.
\<close>

datatype step = Pass http_req reply | Ended reply

type_synonym middleware = "http_req \<Rightarrow> reply \<Rightarrow> step"

text \<open>
  The packages the application installs are not part of the repository and are
  parameters: the middleware returned by \<^verbatim>\<open>cors()\<close> (line 27), the one returned by
  \<^verbatim>\<open>bodyParser.json()\<close> (line 28, together with the framework's answer to a body it
  rejects), and the framework's test of a request path against a route path.
\<close>

record express =
  cors_mw :: middleware
  json_mw :: middleware
  route_match :: "string \<Rightarrow> string \<Rightarrow> bool"

text \<open>\<^verbatim>\<open>res.setHeader(name, value)\<close>.\<close>

definition setHeader :: "string \<Rightarrow> string \<Rightarrow> reply \<Rightarrow> reply" where
  "setHeader name v res =
     res\<lparr>rp_headers := filter (\<lambda>h. fst h \<noteq> name) (rp_headers res) @ [(name, v)]\<rparr>"

text \<open>The middleware of lines 31-35.\<close>

definition relaxed_headers :: middleware where
  "relaxed_headers req res =
     Pass req (setHeader ''Cross-Origin-Embedder-Policy'' ''unsafe-none''
                (setHeader ''Cross-Origin-Opener-Policy'' ''same-origin-allow-popups'' res))"

text \<open>The middleware registered with \<^verbatim>\<open>app.use\<close> run in the order of registration.\<close>

fun run_middleware :: "middleware list \<Rightarrow> http_req \<Rightarrow> reply \<Rightarrow> step" where
  "run_middleware [] req res = Pass req res"
| "run_middleware (m # ms) req res =
     (case m req res of
        Ended r \<Rightarrow> Ended r
      | Pass req' res' \<Rightarrow> run_middleware ms req' res')"

definition fresh_reply :: reply where
  "fresh_reply = \<lparr>rp_headers = [], rp_status = 200, rp_body = JUndefined\<rparr>"

text \<open>Lines 222-224, the catch-all registered last.\<close>

definition not_found :: "reply \<Rightarrow> reply" where
  "not_found res = res\<lparr>rp_status := 404, rp_body := JObj [(''error'', JStr ''Not Found'')]\<rparr>"

text \<open>
  The application as lines 27-35, 156 and 222 assemble it: the three middleware, then
  the route \<^verbatim>\<open>POST /api/auth/google\<close>, then the catch-all for every method and path.
\<close>

definition app :: "express \<Rightarrow> 'w env \<Rightarrow> http_req \<Rightarrow> 'w state \<Rightarrow> outcome \<times> 'w state" where
  "app ex env req st =
     (case run_middleware [cors_mw ex, json_mw ex, relaxed_headers] req fresh_reply of
        Ended r \<Rightarrow> (Sent r, st)
      | Pass req' res \<Rightarrow>
          if hr_method req' = ''POST'' \<and> route_match ex ''/api/auth/google'' (hr_path req')
          then auth_google env (hr_body req') res st
          else (Sent (not_found res), st))"

section \<open>What the claims observe\<close>

text \<open>\<^verbatim>\<open>x.key\<close> where a throwing read counts as \<^verbatim>\<open>undefined\<close>; used to inspect documents.\<close>

definition field :: "json \<Rightarrow> string \<Rightarrow> json" where
  "field x key = (case get_prop x key of Inl t \<Rightarrow> JUndefined | Inr v \<Rightarrow> v)"

text \<open>
  The credential a provisioning request writes, and the one a session-token request
  presents.
\<close>

definition written_credential :: "request \<Rightarrow> json" where
  "written_credential rq = field (field (rq_data rq) ''customer'') ''password''"

definition presented_credential :: "request \<Rightarrow> json" where
  "presented_credential rq =
     field (field (field (rq_data rq) ''variables'') ''input'') ''password''"

text \<open>A call is a create-account call when it posts to the customers collection.\<close>

fun is_create_call :: "'w env \<Rightarrow> call \<Rightarrow> bool" where
  "is_create_call env (VerifyIdToken t a) = False"
| "is_create_call env (Http rq) =
     (rq_method rq = POST \<and>
      rq_url rq = [Lit (SHOPIFY_STORE_URL env @ ''/admin/api/2023-10/customers.json'')])"

text \<open>The user errors of a session-token response.\<close>

definition user_errors :: "response \<Rightarrow> json" where
  "user_errors r =
     field (field (field (rs_data r) ''data'') ''customerAccessTokenCreate'') ''userErrors''"

text \<open>
  An answer of the commerce platform's REST interface that delivers no account under
  the member \<open>key\<close>: the call threw (a transport failure, a status the client
  rejects), or the answer is an HTML page, or it has an error member, or it has no
  such member.
\<close>

definition declined :: "js_error + response \<Rightarrow> string \<Rightarrow> bool" where
  "declined a key =
     (case a of
        Inl error \<Rightarrow> True
      | Inr r \<Rightarrow>
          html_content_type r \<or> truthy (field (rs_data r) ''error'')
          \<or> \<not> truthy (field (rs_data r) key))"

text \<open>The access token of a session-token response.\<close>

definition access_token :: "response \<Rightarrow> json" where
  "access_token r =
     field (field (field (field (rs_data r) ''data'') ''customerAccessTokenCreate'')
              ''customerAccessToken'') ''accessToken''"

text \<open>
  An answer to the session-token mutation that delivers no token: the call threw, or
  the answer is an HTML page, or it has an error member, or it has no list of user
  errors, or that list is not empty, or it has no access token.
\<close>

definition no_token :: "js_error + response \<Rightarrow> bool" where
  "no_token a =
     (case a of
        Inl error \<Rightarrow> True
      | Inr r \<Rightarrow>
          html_content_type r \<or> truthy (field (rs_data r) ''error'')
          \<or> user_errors r = JUndefined \<or> user_errors r = JNull
          \<or> truthy (field (user_errors r) ''length'')
          \<or> \<not> truthy (access_token r))"

text \<open>
  The failures of a step after the token-presence check that end the chain, each
  stated on what the collaborator answers and each with the error that reaches the
  \<^verbatim>\<open>catch\<close> of line 210: the identity provider rejects the token; the payload has no
  readable email; the create-account call delivers no account; the credential-reset
  call delivers no account; the session-token call delivers no token; and, as a case
  of the last, the session-token mutation answers with user errors. A failure of the
  account lookup is not among them.
\<close>

inductive failure :: "'w env \<Rightarrow> json \<Rightarrow> 'w state \<Rightarrow> js_error \<Rightarrow> bool"
  for env :: "'w env" and token :: json and st :: "'w state"
where
  verification:
    "verify_call env token (GOOGLE_CLIENT_ID env) st = (Inl error, st1) \<Longrightarrow>
     failure env token st error"
| no_email:
    "verify_call env token (GOOGLE_CLIENT_ID env) st = (Inr payload, st1) \<Longrightarrow>
     get_prop payload ''email'' = Inl t \<Longrightarrow>
     failure env token st (new_error env t)"
| creation:
    "verify_call env token (GOOGLE_CLIENT_ID env) st = (Inr payload, st1) \<Longrightarrow>
     get_prop payload ''email'' = Inr email \<Longrightarrow>
     findCustomerByEmail env email st1 = (found, st2) \<Longrightarrow>
     \<not> truthy found \<Longrightarrow>
     axios env (create_request env (field payload ''given_name'')
                  (field payload ''family_name'') email) (world st2) = (a, w) \<Longrightarrow>
     declined a ''customer'' \<Longrightarrow>
     failure env token st (new_error env ''Failed to create customer in Shopify'')"
| reset:
    "verify_call env token (GOOGLE_CLIENT_ID env) st = (Inr payload, st1) \<Longrightarrow>
     get_prop payload ''email'' = Inr email \<Longrightarrow>
     findCustomerByEmail env email st1 = (found, st2) \<Longrightarrow>
     truthy found \<Longrightarrow>
     axios env (update_request env (field found ''id'') (JStr ''Default@123''))
       (world st2) = (a, w) \<Longrightarrow>
     declined a ''customer'' \<Longrightarrow>
     failure env token st (new_error env ''Failed to update customer password'')"
| issuance:
    "verify_call env token (GOOGLE_CLIENT_ID env) st = (Inr payload, st1) \<Longrightarrow>
     get_prop payload ''email'' = Inr email \<Longrightarrow>
     findCustomerByEmail env email st1 = (found, st2) \<Longrightarrow>
     provision env payload found st2 = (Inr customer, st3) \<Longrightarrow>
     axios env (token_request env email) (world st3) = (a, w) \<Longrightarrow>
     no_token a \<Longrightarrow>
     failure env token st (new_error env ''Failed to generate customer access token'')"
| user_error:
    "verify_call env token (GOOGLE_CLIENT_ID env) st = (Inr payload, st1) \<Longrightarrow>
     get_prop payload ''email'' = Inr email \<Longrightarrow>
     findCustomerByEmail env email st1 = (found, st2) \<Longrightarrow>
     provision env payload found st2 = (Inr customer, st3) \<Longrightarrow>
     axios env (token_request env email) (world st3) = (Inr r, w) \<Longrightarrow>
     user_errors r = JArr (e # es) \<Longrightarrow>
     failure env token st (new_error env ''Failed to generate customer access token'')"

code_pred failure .

section \<open>Worlds to run the endpoint in\<close>

text \<open>
  A scripted world: the answers of the HTTP client are fixed in advance and handed out
  in order, whatever the request; the identity provider accepts every token and
  yields the payload of the script.
\<close>

record script =
  sc_payload :: json
  sc_answers :: "(js_error + response) list"

definition network_error :: js_error where
  "network_error = JsError ''Network Error'' ''AxiosError: Network Error''"

definition scripted :: "script env" where
  "scripted =
     \<lparr>SHOPIFY_STORE_URL = ''https://shop.example'',
      SHOPIFY_ACCESS_TOKEN = ''admin-key'',
      SHOPIFY_STOREFRONT_ACCESS_TOKEN = ''storefront-key'',
      GOOGLE_CLIENT_ID = ''client-id'',
      verifyIdToken = (\<lambda>idToken audience w. (Inr (sc_payload w), w)),
      axios = (\<lambda>rq w. case sc_answers w of
                          [] \<Rightarrow> (Inl network_error, w)
                        | a # as \<Rightarrow> (a, w\<lparr>sc_answers := as\<rparr>)),
      capture_stack = (\<lambda>msg. ''Error: '' @ msg)\<rparr>"

definition json_response :: "nat \<Rightarrow> json \<Rightarrow> response" where
  "json_response code d =
     \<lparr>rs_status = code, rs_content_type = Some ''application/json; charset=utf-8'', rs_data = d\<rparr>"

definition html_response :: "nat \<Rightarrow> string \<Rightarrow> response" where
  "html_response code page =
     \<lparr>rs_status = code, rs_content_type = Some ''text/html; charset=utf-8'', rs_data = JStr page\<rparr>"

definition ada_payload :: json where
  "ada_payload = JObj [(''email'', JStr ''ada@example.com''),
                       (''given_name'', JStr ''Ada''),
                       (''family_name'', JStr ''Lovelace'')]"

definition ada_customer :: json where
  "ada_customer = JObj [(''id'', JNum 7),
                        (''email'', JStr ''ada@example.com''),
                        (''first_name'', JStr ''Ada''),
                        (''last_name'', JStr ''Lovelace'')]"

definition token_granted :: "string \<Rightarrow> json" where
  "token_granted t =
     JObj [(''data'', JObj [(''customerAccessTokenCreate'', JObj
       [(''customerAccessToken'', JObj [(''accessToken'', JStr t),
                                         (''expiresAt'', JStr ''2030-01-01T00:00:00Z'')]),
        (''userErrors'', JArr [])])])]"

definition token_refused :: json where
  "token_refused =
     JObj [(''data'', JObj [(''customerAccessTokenCreate'', JObj
       [(''customerAccessToken'', JNull),
        (''userErrors'', JArr [JObj [(''field'', JNull),
                                      (''message'', JStr ''Unidentified customer'')]])])])]"

definition login_body :: json where
  "login_body = JObj [(''token'', JStr ''id-token-of-ada'')]"

definition begin_with :: "'w \<Rightarrow> 'w state" where
  "begin_with w = \<lparr>world = w, calls = []\<rparr>"

text \<open>
  A commerce platform with a memory, to run two requests in a row: it keeps each
  account with the credential last written to it, refuses a second account for an
  email, and issues a session token only to the email and credential it holds.
\<close>

record account =
  ac_customer :: json
  ac_password :: json

definition shop_search :: "json \<Rightarrow> account list \<Rightarrow> (js_error + response) \<times> account list" where
  "shop_search email w =
     (Inr (json_response 200 (JObj [(''customers'',
        JArr (map ac_customer (filter (\<lambda>a. field (ac_customer a) ''email'' = email) w)))])), w)"

definition shop_create :: "json \<Rightarrow> account list \<Rightarrow> (js_error + response) \<times> account list" where
  "shop_create d w =
     (let c = field d ''customer'' in
      if list_ex (\<lambda>a. field (ac_customer a) ''email'' = field c ''email'') w
      then (Inl (JsError ''Request failed with status code 422'' ''AxiosError''), w)
      else
        (let customer = JObj [(''id'', JNum (of_nat (Suc (length w)))),
                              (''email'', field c ''email''),
                              (''first_name'', field c ''first_name''),
                              (''last_name'', field c ''last_name'')]
         in (Inr (json_response 201 (JObj [(''customer'', customer)])),
             w @ [\<lparr>ac_customer = customer, ac_password = field c ''password''\<rparr>])))"

definition shop_update :: "json \<Rightarrow> json \<Rightarrow> account list \<Rightarrow> (js_error + response) \<times> account list" where
  "shop_update customerId d w =
     (case filter (\<lambda>a. field (ac_customer a) ''id'' = customerId) w of
        [] \<Rightarrow> (Inl (JsError ''Request failed with status code 404'' ''AxiosError''), w)
      | a # as \<Rightarrow>
          (Inr (json_response 200 (JObj [(''customer'', ac_customer a)])),
           map (\<lambda>b. if field (ac_customer b) ''id'' = customerId
                     then b\<lparr>ac_password := field (field d ''customer'') ''password''\<rparr>
                     else b) w))"

definition shop_token :: "json \<Rightarrow> account list \<Rightarrow> (js_error + response) \<times> account list" where
  "shop_token d w =
     (let input = field (field d ''variables'') ''input'' in
      if list_ex (\<lambda>a. field (ac_customer a) ''email'' = field input ''email'' \<and>
                       ac_password a = field input ''password'') w
      then (Inr (json_response 200 (token_granted ''session-token'')), w)
      else (Inr (json_response 200 token_refused), w))"

definition shop_axios :: "string \<Rightarrow> request \<Rightarrow> account list \<Rightarrow> (js_error + response) \<times> account list" where
  "shop_axios base rq w =
     (case (rq_method rq, rq_url rq) of
        (GET, [Lit u, Interp email]) \<Rightarrow>
          if u = base @ ''/admin/api/2023-10/customers/search.json?query=email:''
          then shop_search email w
          else (Inl (JsError ''Request failed with status code 404'' ''AxiosError''), w)
      | (POST, [Lit u]) \<Rightarrow>
          if u = base @ ''/admin/api/2023-10/customers.json'' then shop_create (rq_data rq) w
          else if u = base @ ''/api/2024-04/graphql.json'' then shop_token (rq_data rq) w
          else (Inl (JsError ''Request failed with status code 404'' ''AxiosError''), w)
      | (PUT, [Lit u, Interp customerId, Lit v]) \<Rightarrow>
          if u = base @ ''/admin/api/2023-10/customers/'' \<and> v = ''.json''
          then shop_update customerId (rq_data rq) w
          else (Inl (JsError ''Request failed with status code 404'' ''AxiosError''), w)
      | _ \<Rightarrow> (Inl (JsError ''Request failed with status code 404'' ''AxiosError''), w))"

definition shop :: "account list env" where
  "shop =
     \<lparr>SHOPIFY_STORE_URL = ''https://shop.example'',
      SHOPIFY_ACCESS_TOKEN = ''admin-key'',
      SHOPIFY_STOREFRONT_ACCESS_TOKEN = ''storefront-key'',
      GOOGLE_CLIENT_ID = ''client-id'',
      verifyIdToken = (\<lambda>idToken audience w.
         if idToken = JStr ''id-token-of-ada'' \<and> audience = ''client-id''
         then (Inr ada_payload, w)
         else (Inl (JsError ''Invalid token signature'' ''Error: Invalid token signature''), w)),
      axios = shop_axios ''https://shop.example'',
      capture_stack = (\<lambda>msg. ''Error: '' @ msg)\<rparr>"

text \<open>
  The packages with the options the application gives them (none), on requests whose
  body, if any, is well-formed JSON. \<^verbatim>\<open>cors()\<close> treats every \<^verbatim>\<open>OPTIONS\<close> request as
  a preflight and ends it with status 204 (it passes a preflight on only when
  \<^verbatim>\<open>preflightContinue\<close> is set); every other request it passes on with the
  allow-origin header set. \<^verbatim>\<open>bodyParser.json()\<close> leaves the parsed document in
  \<^verbatim>\<open>req.body\<close>, an empty object when there is none. Of the framework's path matching
  only that a path matches itself is kept; of the headers \<^verbatim>\<open>cors()\<close> sets, only the
  allow-origin header.
\<close>

definition packages :: express where
  "packages =
     \<lparr>cors_mw = (\<lambda>req res.
         if hr_method req = ''OPTIONS''
         then Ended ((setHeader ''Access-Control-Allow-Origin'' ''*'' res)\<lparr>rp_status := 204\<rparr>)
         else Pass req (setHeader ''Access-Control-Allow-Origin'' ''*'' res)),
      json_mw = (\<lambda>req res.
         Pass (if hr_body req = JUndefined then req\<lparr>hr_body := JObj []\<rparr> else req) res),
      route_match = (\<lambda>route path. path = route)\<rparr>"

definition first_login :: script where
  "first_login =
     \<lparr>sc_payload = ada_payload,
      sc_answers = [Inr (json_response 200 (JObj [(''customers'', JArr [])])),
                    Inr (json_response 201 (JObj [(''customer'', ada_customer)])),
                    Inr (json_response 200 (token_granted ''session-token''))]\<rparr>"

definition second_login :: script where
  "second_login =
     \<lparr>sc_payload = ada_payload,
      sc_answers = [Inr (json_response 200 (JObj [(''customers'', JArr [ada_customer])])),
                    Inr (json_response 200 (JObj [(''customer'', JObj [(''id'', JNum 7)])])),
                    Inr (json_response 200 (token_granted ''session-token''))]\<rparr>"

definition lookup_down :: script where
  "lookup_down =
     \<lparr>sc_payload = ada_payload,
      sc_answers = [Inl network_error,
                    Inr (json_response 201 (JObj [(''customer'', ada_customer)])),
                    Inr (json_response 200 (token_granted ''session-token''))]\<rparr>"

definition lookup_html :: script where
  "lookup_html =
     \<lparr>sc_payload = ada_payload,
      sc_answers = [Inr (html_response 200 ''<html>Sign in</html>''),
                    Inr (json_response 201 (JObj [(''customer'', ada_customer)])),
                    Inr (json_response 200 (token_granted ''session-token''))]\<rparr>"

definition token_is_refused :: script where
  "token_is_refused =
     \<lparr>sc_payload = ada_payload,
      sc_answers = [Inr (json_response 200 (JObj [(''customers'', JArr [])])),
                    Inr (json_response 201 (JObj [(''customer'', ada_customer)])),
                    Inr (json_response 200 token_refused)]\<rparr>"

definition create_is_down :: script where
  "create_is_down =
     \<lparr>sc_payload = ada_payload,
      sc_answers = [Inr (json_response 200 (JObj [(''customers'', JArr [])])),
                    Inl network_error]\<rparr>"

definition anything :: http_req where
  "anything = \<lparr>hr_method = ''GET'', hr_path = ''/anything'', hr_body = JUndefined\<rparr>"

definition preflight :: http_req where
  "preflight = \<lparr>hr_method = ''OPTIONS'', hr_path = ''/anything'', hr_body = JUndefined\<rparr>"

section \<open>Facts about the helpers\<close>

lemma get_prop_field: "get_prop x key = Inr v \<Longrightarrow> field x key = v"
  by (simp add: field_def)

lemma get_prop_defined: "get_prop x key = Inr v \<Longrightarrow> get_prop x key' = Inr (field x key')"
  by (cases x) (simp_all add: field_def)

lemma get_prop_truthy: "truthy x \<Longrightarrow> get_prop x key = Inr (field x key)"
  by (cases x) (simp_all add: field_def)

lemma get_prop_undefined: "get_prop x key = Inl t \<Longrightarrow> x = JUndefined \<or> x = JNull"
  by (cases x) simp_all

lemma verify_call_calls:
  "verify_call env token aud st = (r, st1) \<Longrightarrow> calls st1 = calls st @ [VerifyIdToken token aud]"
  by (auto simp: verify_call_def split: prod.splits)

lemma findCustomerByEmail_calls:
  "calls (snd (findCustomerByEmail env email st)) = calls st @ [Http (search_request env email)]"
  by (simp add: findCustomerByEmail_def axios_call_def Let_def split: prod.splits sum.splits)

lemma findCustomerByEmail_thrown:
  "axios env (search_request env email) (world st) = (Inl error, w) \<Longrightarrow>
   findCustomerByEmail env email st =
     (JNull, \<lparr>world = w, calls = calls st @ [Http (search_request env email)]\<rparr>)"
  by (simp add: findCustomerByEmail_def axios_call_def)

lemma findCustomerByEmail_html:
  "axios env (search_request env email) (world st) = (Inr r, w) \<Longrightarrow> html_content_type r \<Longrightarrow>
   findCustomerByEmail env email st =
     (JNull, \<lparr>world = w, calls = calls st @ [Http (search_request env email)]\<rparr>)"
  by (simp add: findCustomerByEmail_def axios_call_def handleApiResponse_def)

lemma findCustomerByEmail_empty:
  "axios env (search_request env email) (world st) = (Inr r, w) \<Longrightarrow> \<not> html_content_type r \<Longrightarrow>
   rs_data r = JObj [(''customers'', JArr [])] \<Longrightarrow>
   findCustomerByEmail env email st =
     (JNull, \<lparr>world = w, calls = calls st @ [Http (search_request env email)]\<rparr>)"
  by (simp add: findCustomerByEmail_def axios_call_def handleApiResponse_def or_else_def)

lemma createCustomer_calls:
  "calls (snd (createCustomer env payload st)) =
     calls st @ (if payload = JUndefined \<or> payload = JNull then []
                 else [Http (create_request env (field payload ''given_name'')
                               (field payload ''family_name'') (field payload ''email''))])"
  by (cases payload)
     (simp_all add: createCustomer_def axios_call_def Let_def field_def split: prod.splits sum.splits)

lemma createCustomer_calls_email:
  "get_prop payload ''email'' = Inr email \<Longrightarrow>
   calls (snd (createCustomer env payload st)) =
     calls st @ [Http (create_request env (field payload ''given_name'')
                         (field payload ''family_name'') email)]"
  using createCustomer_calls [of env payload st] by (auto simp: field_def)

lemma updateCustomerPassword_calls:
  "calls (snd (updateCustomerPassword env cid pw st)) = calls st @ [Http (update_request env cid pw)]"
  by (simp add: updateCustomerPassword_def axios_call_def Let_def split: prod.splits sum.splits)

lemma createCustomerAccessToken_calls:
  "calls (snd (createCustomerAccessToken env email st)) = calls st @ [Http (token_request env email)]"
  by (simp add: createCustomerAccessToken_def axios_call_def Let_def split: prod.splits sum.splits)

lemma user_errors_refused:
  assumes "axios env (token_request env email) (world st) = (Inr r, w)"
    and "user_errors r = JArr (e # es)"
  shows "fst (createCustomerAccessToken env email st) = JNull"
proof (cases "html_content_type r")
  case True
  then show ?thesis
    using assms(1) by (simp add: createCustomerAccessToken_def axios_call_def handleApiResponse_def)
next
  case False
  then have d: "handleApiResponse r = rs_data r"
    by (simp add: handleApiResponse_def)
  show ?thesis
    using assms
    by (auto simp: createCustomerAccessToken_def axios_call_def d user_errors_def field_def Let_def
          split: sum.splits)
qed

lemma field_simps:
  "field JUndefined key = JUndefined"
  "field JNull key = JUndefined"
  by (simp_all add: field_def)

lemma get_prop_alt:
  "get_prop x key =
     (if x = JUndefined then Inl (cannot_read ''undefined'' key)
      else if x = JNull then Inl (cannot_read ''null'' key)
      else Inr (field x key))"
  by (cases x) (simp_all add: field_def)

lemma createCustomer_answer:
  assumes "get_prop payload ''email'' = Inr email"
    and "axios env (create_request env (field payload ''given_name'')
                      (field payload ''family_name'') email) (world st) = (a, w)"
  shows "truthy (fst (createCustomer env payload st)) \<longleftrightarrow> \<not> declined a ''customer''"
proof -
  have p: "get_prop payload ''given_name'' = Inr (field payload ''given_name'')"
    "get_prop payload ''family_name'' = Inr (field payload ''family_name'')"
    using get_prop_defined [OF assms(1)] by simp_all
  show ?thesis
  proof (cases a)
    case (Inl e)
    then show ?thesis
      using assms by (simp add: createCustomer_def p axios_call_def declined_def)
  next
    case (Inr r)
    show ?thesis
    proof (cases "html_content_type r")
      case True
      then show ?thesis
        using assms Inr
        by (simp add: createCustomer_def p axios_call_def declined_def handleApiResponse_def)
    next
      case False
      then have d: "handleApiResponse r = rs_data r" by (simp add: handleApiResponse_def)
      show ?thesis
        using assms Inr False
        by (auto simp: createCustomer_def p axios_call_def declined_def d field_simps
              get_prop_alt Let_def split: if_splits)
    qed
  qed
qed

lemma updateCustomerPassword_answer:
  assumes "axios env (update_request env cid pw) (world st) = (a, w)"
  shows "truthy (fst (updateCustomerPassword env cid pw st)) \<longleftrightarrow> \<not> declined a ''customer''"
proof (cases a)
  case (Inl e)
  then show ?thesis
    using assms by (simp add: updateCustomerPassword_def axios_call_def declined_def)
next
  case (Inr r)
  show ?thesis
  proof (cases "html_content_type r")
    case True
    then show ?thesis
      using assms Inr
      by (simp add: updateCustomerPassword_def axios_call_def declined_def handleApiResponse_def)
  next
    case False
    then have d: "handleApiResponse r = rs_data r" by (simp add: handleApiResponse_def)
    show ?thesis
      using assms Inr False
      by (auto simp: updateCustomerPassword_def axios_call_def declined_def d field_simps
            get_prop_alt Let_def split: if_splits)
  qed
qed

lemma createCustomerAccessToken_answer:
  assumes "axios env (token_request env email) (world st) = (a, w)"
  shows "truthy (fst (createCustomerAccessToken env email st)) \<longleftrightarrow> \<not> no_token a"
proof (cases a)
  case (Inl e)
  then show ?thesis
    using assms by (simp add: createCustomerAccessToken_def axios_call_def no_token_def)
next
  case (Inr r)
  show ?thesis
  proof (cases "html_content_type r")
    case True
    then show ?thesis
      using assms Inr
      by (simp add: createCustomerAccessToken_def axios_call_def no_token_def handleApiResponse_def)
  next
    case False
    then have d: "handleApiResponse r = rs_data r" by (simp add: handleApiResponse_def)
    let ?d = "field (rs_data r) ''data''"
    let ?td = "field ?d ''customerAccessTokenCreate''"
    let ?ue = "field ?td ''userErrors''"
    let ?cat = "field ?td ''customerAccessToken''"
    show ?thesis
      using assms Inr False
      by (auto simp: createCustomerAccessToken_def axios_call_def d Let_def no_token_def
            user_errors_def access_token_def field_simps get_prop_alt split: if_splits)
  qed
qed

lemma thrown_call_delivers_nothing:
  "declined (Inl error) key"
  "no_token (Inl error)"
  by (simp_all add: declined_def no_token_def)

lemma html_answer_delivers_nothing:
  "html_content_type r \<Longrightarrow> declined (Inr r) key"
  "html_content_type r \<Longrightarrow> no_token (Inr r)"
  by (simp_all add: declined_def no_token_def)

lemma user_errors_no_token:
  "user_errors r = JArr (e # es) \<Longrightarrow> no_token (Inr r)"
  by (simp add: no_token_def field_def)

lemma is_create_call_simps:
  "\<not> is_create_call env (VerifyIdToken token audience)"
  "\<not> is_create_call env (Http (search_request env email))"
  "\<not> is_create_call env (Http (update_request env cid pw))"
  "\<not> is_create_call env (Http (token_request env email))"
  by (simp_all add: search_request_def update_request_def token_request_def)

section \<open>Facts about the endpoint\<close>

lemma provision_calls:
  "calls (snd (provision env payload found st)) =
     calls st @
     (if truthy found
      then [Http (update_request env (field found ''id'') (JStr ''Default@123''))]
      else if payload = JUndefined \<or> payload = JNull then []
      else [Http (create_request env (field payload ''given_name'')
                    (field payload ''family_name'') (field payload ''email''))])"
proof (cases "truthy found")
  case True
  then show ?thesis
    using updateCustomerPassword_calls [of env "field found ''id''" "JStr ''Default@123''" st]
    by (auto simp: provision_def get_prop_truthy split: prod.splits)
next
  case False
  then show ?thesis
    using createCustomer_calls [of env payload st]
    by (auto simp: provision_def split: prod.splits)
qed

lemma provision_create:
  "\<not> truthy found \<Longrightarrow> createCustomer env payload st = (customer, st') \<Longrightarrow>
   provision env payload found st =
     (if truthy customer then Inr customer
      else Inl (new_error env ''Failed to create customer in Shopify''), st')"
  by (simp add: provision_def)

lemma provision_update:
  "truthy found \<Longrightarrow>
   updateCustomerPassword env (field found ''id'') (JStr ''Default@123'') st = (updated, st') \<Longrightarrow>
   provision env payload found st =
     (if truthy updated then Inr found
      else Inl (new_error env ''Failed to update customer password''), st')"
  by (simp add: provision_def get_prop_truthy)

lemma provision_Inr:
  "provision env payload found st = (Inr customer, st') \<Longrightarrow> truthy customer"
  by (auto simp: provision_def get_prop_truthy split: if_splits prod.splits)

lemma success_body_truthy:
  "truthy customer \<Longrightarrow>
   success_body env customerToken customer =
     Inr (JObj
       [(''success'', JBool True),
        (''token'', customerToken),
        (''redirectUrl'', JStr (SHOPIFY_STORE_URL env @ ''/account'')),
        (''customer'', JObj
           [(''id'', field customer ''id''),
            (''email'', field customer ''email''),
            (''firstName'', field customer ''first_name''),
            (''lastName'', field customer ''last_name'')])])"
  by (simp add: success_body_def get_prop_truthy)

lemma login_flow_unfold:
  assumes "verify_call env token (GOOGLE_CLIENT_ID env) st = (Inr payload, st1)"
    and "get_prop payload ''email'' = Inr email"
    and "findCustomerByEmail env email st1 = (found, st2)"
  shows "login_flow env token st =
     (case provision env payload found st2 of
        (Inl error, st3) \<Rightarrow> (Inl error, st3)
      | (Inr customer, st3) \<Rightarrow>
          (case createCustomerAccessToken env email st3 of
             (customerToken, st4) \<Rightarrow>
               if \<not> truthy customerToken
               then (Inl (new_error env ''Failed to generate customer access token''), st4)
               else (success_body env customerToken customer, st4)))"
  using assms by (simp add: login_flow_def)

lemma auth_google_falsy_token:
  "get_prop body ''token'' = Inr token \<Longrightarrow> \<not> truthy token \<Longrightarrow>
   auth_google env body res st =
     (Sent (res\<lparr>rp_status := 400,
                rp_body := JObj [(''success'', JBool False), (''error'', JStr ''Token is required'')]\<rparr>), st)"
  by (simp add: auth_google_def)

lemma auth_google_truthy:
  "get_prop body ''token'' = Inr token \<Longrightarrow> truthy token \<Longrightarrow>
   auth_google env body res st =
     (case login_flow env token st of
        (Inr b, st') \<Rightarrow> (Sent (res\<lparr>rp_body := b\<rparr>), st')
      | (Inl error, st') \<Rightarrow>
          (Sent (res\<lparr>rp_status := 500,
                       rp_body := JObj [(''success'', JBool False),
                                        (''error'', JStr ''Authentication failed''),
                                        (''details'', JStr (message error)),
                                        (''stack'', JStr (stack error))]\<rparr>), st'))"
  by (simp add: auth_google_def)

lemma auth_google_state:
  "get_prop body ''token'' = Inr token \<Longrightarrow> truthy token \<Longrightarrow>
   snd (auth_google env body res st) = snd (login_flow env token st)"
  by (simp add: auth_google_truthy split: prod.splits sum.splits)

lemma auth_google_create_path:
  assumes "get_prop body ''token'' = Inr token" and "truthy token"
    and "verify_call env token (GOOGLE_CLIENT_ID env) st = (Inr payload, st1)"
    and "get_prop payload ''email'' = Inr email"
    and "findCustomerByEmail env email st1 = (found, st2)" and "\<not> truthy found"
  shows "calls (snd (auth_google env body res st)) =
     calls st @
     [VerifyIdToken token (GOOGLE_CLIENT_ID env),
      Http (search_request env email),
      Http (create_request env (field payload ''given_name'') (field payload ''family_name'') email)] @
     (if truthy (fst (createCustomer env payload st2)) then [Http (token_request env email)] else [])"
proof -
  obtain customer st3 where c: "createCustomer env payload st2 = (customer, st3)"
    by (cases "createCustomer env payload st2")
  have c1: "calls st1 = calls st @ [VerifyIdToken token (GOOGLE_CLIENT_ID env)]"
    using verify_call_calls [OF assms(3)] .
  have c2: "calls st2 = calls st1 @ [Http (search_request env email)]"
    using findCustomerByEmail_calls [of env email st1] assms(5) by simp
  have c3: "calls st3 = calls st2 @ [Http (create_request env (field payload ''given_name'')
                                         (field payload ''family_name'') email)]"
    using createCustomer_calls_email [OF assms(4), of env st2] c by simp
  have c4: "calls (snd (createCustomerAccessToken env email st3)) =
      calls st3 @ [Http (token_request env email)]"
    by (rule createCustomerAccessToken_calls)
  have st: "snd (auth_google env body res st) =
      (if truthy customer then snd (createCustomerAccessToken env email st3) else st3)"
    by (simp add: auth_google_state [OF assms(1,2)] login_flow_unfold [OF assms(3,4,5)]
          provision_create [OF assms(6) c] split: prod.splits)
  show ?thesis by (simp add: st c c1 c2 c3 c4)
qed

lemma login_flow_failure:
  "failure env token st error \<Longrightarrow> \<exists>st'. login_flow env token st = (Inl error, st')"
proof (induction rule: failure.induct)
  case (verification error st1)
  then show ?case by (simp add: login_flow_def)
next
  case (no_email payload st1 t)
  then show ?case by (simp add: login_flow_def)
next
  case (creation payload st1 email found st2 a w)
  obtain customer st3 where c: "createCustomer env payload st2 = (customer, st3)"
    by (cases "createCustomer env payload st2")
  have "\<not> truthy customer"
    using createCustomer_answer [OF creation(2,5)] creation(6) c by simp
  then show ?case
    using creation(1-4) c by (simp add: login_flow_unfold provision_create)
next
  case (reset payload st1 email found st2 a w)
  obtain updated st3 where
    u: "updateCustomerPassword env (field found ''id'') (JStr ''Default@123'') st2 = (updated, st3)"
    by (cases "updateCustomerPassword env (field found ''id'') (JStr ''Default@123'') st2")
  have "\<not> truthy updated"
    using updateCustomerPassword_answer [OF reset(5)] reset(6) u by simp
  then show ?case
    using reset(1-4) u by (simp add: login_flow_unfold provision_update)
next
  case (issuance payload st1 email found st2 customer st3 a w)
  obtain customerToken st4 where
    t: "createCustomerAccessToken env email st3 = (customerToken, st4)"
    by (cases "createCustomerAccessToken env email st3")
  have "\<not> truthy customerToken"
    using createCustomerAccessToken_answer [OF issuance(5)] issuance(6) t by simp
  then show ?case
    using issuance(1-4) t by (simp add: login_flow_unfold)
next
  case (user_error payload st1 email found st2 customer st3 r w e es)
  have "fst (createCustomerAccessToken env email st3) = JNull"
    using user_errors_refused [OF user_error(5,6)] .
  then obtain st4 where "createCustomerAccessToken env email st3 = (JNull, st4)"
    by (cases "createCustomerAccessToken env email st3") simp
  then show ?case
    using user_error(1-4) by (simp add: login_flow_unfold)
qed

lemma login_flow_failure_only:
  assumes "login_flow env token st = (Inl error, st')"
  shows "failure env token st error"
proof -
  obtain v st1 where v: "verify_call env token (GOOGLE_CLIENT_ID env) st = (v, st1)"
    by (cases "verify_call env token (GOOGLE_CLIENT_ID env) st")
  show ?thesis
  proof (cases v)
    case (Inl e)
    with v assms show ?thesis
      by (auto simp: login_flow_def intro: failure.verification)
  next
    case (Inr payload)
    note vp = v [unfolded Inr]
    show ?thesis
    proof (cases "get_prop payload ''email''")
      case (Inl t)
      with vp assms show ?thesis
        by (auto simp: login_flow_def intro: failure.no_email)
    next
      case (Inr email)
      obtain found st2 where f: "findCustomerByEmail env email st1 = (found, st2)"
        by (cases "findCustomerByEmail env email st1")
      obtain p st3 where p: "provision env payload found st2 = (p, st3)"
        by (cases "provision env payload found st2")
      show ?thesis
      proof (cases p)
        case (Inl e)
        with assms p have e: "e = error"
          by (simp add: login_flow_unfold [OF vp Inr f])
        show ?thesis
        proof (cases "truthy found")
          case True
          obtain updated s where u:
            "updateCustomerPassword env (field found ''id'') (JStr ''Default@123'') st2 = (updated, s)"
            by (cases "updateCustomerPassword env (field found ''id'') (JStr ''Default@123'') st2")
          obtain a w where a:
            "axios env (update_request env (field found ''id'') (JStr ''Default@123''))
               (world st2) = (a, w)"
            by (cases "axios env (update_request env (field found ''id'') (JStr ''Default@123''))
                         (world st2)")
          from p Inl e provision_update [OF True u, of payload]
          have "\<not> truthy updated" and "error = new_error env ''Failed to update customer password''"
            by (auto split: if_splits)
          then show ?thesis
            using failure.reset [OF vp Inr f True a] updateCustomerPassword_answer [OF a] u
            by simp
        next
          case False
          obtain customer s where c: "createCustomer env payload st2 = (customer, s)"
            by (cases "createCustomer env payload st2")
          obtain a w where a:
            "axios env (create_request env (field payload ''given_name'')
                          (field payload ''family_name'') email) (world st2) = (a, w)"
            by (cases "axios env (create_request env (field payload ''given_name'')
                          (field payload ''family_name'') email) (world st2)")
          from p Inl e provision_create [OF False c]
          have "\<not> truthy customer" and "error = new_error env ''Failed to create customer in Shopify''"
            by (auto split: if_splits)
          then show ?thesis
            using failure.creation [OF vp Inr f False a] createCustomer_answer [OF Inr a] c
            by simp
        qed
      next
        case (Inr customer)
        note pc = p [unfolded Inr]
        obtain tok st4 where t: "createCustomerAccessToken env email st3 = (tok, st4)"
          by (cases "createCustomerAccessToken env email st3")
        obtain a w where a: "axios env (token_request env email) (world st3) = (a, w)"
          by (cases "axios env (token_request env email) (world st3)")
        have "\<not> truthy tok \<and> error = new_error env ''Failed to generate customer access token''"
          using assms login_flow_unfold [OF vp \<open>get_prop payload ''email'' = Inr email\<close> f] pc t
            success_body_truthy [OF provision_Inr [OF pc], of env tok]
          by (auto split: if_splits)
        then show ?thesis
          using failure.issuance [OF vp \<open>get_prop payload ''email'' = Inr email\<close> f pc a]
            createCustomerAccessToken_answer [OF a] t
          by simp
      qed
    qed
  qed
qed

lemma failure_iff_caught:
  "failure env token st error \<longleftrightarrow> (\<exists>st'. login_flow env token st = (Inl error, st'))"
  using login_flow_failure login_flow_failure_only by blast

lemma caught_gives_500:
  assumes "get_prop body ''token'' = Inr token" and "truthy token"
    and "login_flow env token st = (Inl error, st')"
  shows "auth_google env body res st =
     (Sent (res\<lparr>rp_status := 500,
                 rp_body := JObj [(''success'', JBool False),
                                  (''error'', JStr ''Authentication failed''),
                                  (''details'', JStr (message error)),
                                  (''stack'', JStr (stack error))]\<rparr>), st')"
  by (simp add: auth_google_truthy [OF assms(1,2)] assms(3))

lemma thrown_create_gives_500:
  assumes "get_prop body ''token'' = Inr token" and "truthy token"
    and "verify_call env token (GOOGLE_CLIENT_ID env) st = (Inr payload, st1)"
    and "get_prop payload ''email'' = Inr email"
    and "findCustomerByEmail env email st1 = (found, st2)" and "\<not> truthy found"
    and "axios env (create_request env (field payload ''given_name'')
                      (field payload ''family_name'') email) (world st2) = (Inl thrown, w)"
  shows "fst (auth_google env body res st) =
     Sent (res\<lparr>rp_status := 500,
                rp_body := JObj [(''success'', JBool False),
                                 (''error'', JStr ''Authentication failed''),
                                 (''details'', JStr ''Failed to create customer in Shopify''),
                                 (''stack'', JStr (capture_stack env
                                    ''Failed to create customer in Shopify''))]\<rparr>)"
proof -
  have "failure env token st (new_error env ''Failed to create customer in Shopify'')"
    by (rule failure.creation [OF assms(3-7) thrown_call_delivers_nothing(1)])
  then obtain st' where
    "login_flow env token st = (Inl (new_error env ''Failed to create customer in Shopify''), st')"
    using login_flow_failure by blast
  then show ?thesis
    using caught_gives_500 [OF assms(1,2), of env st _ st' res] by (simp add: new_error_def)
qed

lemma thrown_reset_gives_500:
  assumes "get_prop body ''token'' = Inr token" and "truthy token"
    and "verify_call env token (GOOGLE_CLIENT_ID env) st = (Inr payload, st1)"
    and "get_prop payload ''email'' = Inr email"
    and "findCustomerByEmail env email st1 = (found, st2)" and "truthy found"
    and "axios env (update_request env (field found ''id'') (JStr ''Default@123''))
           (world st2) = (Inl thrown, w)"
  shows "fst (auth_google env body res st) =
     Sent (res\<lparr>rp_status := 500,
                rp_body := JObj [(''success'', JBool False),
                                 (''error'', JStr ''Authentication failed''),
                                 (''details'', JStr ''Failed to update customer password''),
                                 (''stack'', JStr (capture_stack env
                                    ''Failed to update customer password''))]\<rparr>)"
proof -
  have "failure env token st (new_error env ''Failed to update customer password'')"
    by (rule failure.reset [OF assms(3-7) thrown_call_delivers_nothing(1)])
  then obtain st' where
    "login_flow env token st = (Inl (new_error env ''Failed to update customer password''), st')"
    using login_flow_failure by blast
  then show ?thesis
    using caught_gives_500 [OF assms(1,2), of env st _ st' res] by (simp add: new_error_def)
qed

lemma thrown_token_call_gives_500:
  assumes "get_prop body ''token'' = Inr token" and "truthy token"
    and "verify_call env token (GOOGLE_CLIENT_ID env) st = (Inr payload, st1)"
    and "get_prop payload ''email'' = Inr email"
    and "findCustomerByEmail env email st1 = (found, st2)"
    and "provision env payload found st2 = (Inr customer, st3)"
    and "axios env (token_request env email) (world st3) = (Inl thrown, w)"
  shows "fst (auth_google env body res st) =
     Sent (res\<lparr>rp_status := 500,
                rp_body := JObj [(''success'', JBool False),
                                 (''error'', JStr ''Authentication failed''),
                                 (''details'', JStr ''Failed to generate customer access token''),
                                 (''stack'', JStr (capture_stack env
                                    ''Failed to generate customer access token''))]\<rparr>)"
proof -
  have "failure env token st (new_error env ''Failed to generate customer access token'')"
    by (rule failure.issuance [OF assms(3-7) thrown_call_delivers_nothing(2)])
  then obtain st' where
    "login_flow env token st =
       (Inl (new_error env ''Failed to generate customer access token''), st')"
    using login_flow_failure by blast
  then show ?thesis
    using caught_gives_500 [OF assms(1,2), of env st _ st' res] by (simp add: new_error_def)
qed

section \<open>Facts about the worlds\<close>

lemma scripted_simps:
  "axios scripted rq w =
     (case sc_answers w of [] \<Rightarrow> (Inl network_error, w) | a # as \<Rightarrow> (a, w\<lparr>sc_answers := as\<rparr>))"
  "verifyIdToken scripted t a w = (Inr (sc_payload w), w)"
  "GOOGLE_CLIENT_ID scripted = ''client-id''"
  "SHOPIFY_STORE_URL scripted = ''https://shop.example''"
  "capture_stack scripted msg = ''Error: '' @ msg"
  by (simp_all add: scripted_def)

lemma json_response_reads:
  "handleApiResponse (json_response code d) = d"
  by (simp add: handleApiResponse_def html_content_type_def json_response_def)

lemma html_response_reads:
  "handleApiResponse (html_response code page) =
     JObj [(''error'', JStr ''Expected JSON, received HTML. Likely a wrong endpoint or failed auth.'')]"
  by (simp add: handleApiResponse_def html_content_type_def html_response_def)

lemmas run_defs =
  verify_call_def findCustomerByEmail_def createCustomer_def updateCustomerPassword_def
  createCustomerAccessToken_def axios_call_def begin_with_def or_else_def

lemmas app_defs =
  app_def packages_def relaxed_headers_def setHeader_def fresh_reply_def not_found_def

section \<open>The claims\<close>

text \<open>
  C1. The claim: the credential written to the commerce account by create-account or
  by credential-reset is the same value that is then passed as the password of the
  session-token mutation. The code does otherwise: the provisioning step makes one
  call, a reset or a creation, and either writes \<^verbatim>\<open>Default@123\<close>, whereas the
  session-token request that follows presents \<^verbatim>\<open>12$@565mnbvfethiwpldkao\<close>.
\<close>

theorem credential_written_is_not_credential_presented:
  "calls (snd (provision env payload found st)) =
     calls st @
     (if truthy found
      then [Http (update_request env (field found ''id'') (JStr ''Default@123''))]
      else if payload = JUndefined \<or> payload = JNull then []
      else [Http (create_request env (field payload ''given_name'')
                    (field payload ''family_name'') (field payload ''email''))])
   \<and> written_credential (update_request env (field found ''id'') (JStr ''Default@123'')) = JStr ''Default@123''
   \<and> written_credential (create_request env (field payload ''given_name'')
                    (field payload ''family_name'') (field payload ''email'')) = JStr ''Default@123''
   \<and> calls (snd (createCustomerAccessToken env email st')) = calls st' @ [Http (token_request env email)]
   \<and> presented_credential (token_request env email) = JStr ''12$@565mnbvfethiwpldkao''
   \<and> presented_credential (token_request env email) \<noteq> JStr ''Default@123''"
  by (simp add: provision_calls createCustomerAccessToken_calls written_credential_def
        presented_credential_def update_request_def create_request_def token_request_def field_def)

text \<open>
  C2. A request to the login handler whose body has no token member, or has
  \<^verbatim>\<open>null\<close> or the empty string for it, is answered with status 400 and the body
  \<^verbatim>\<open>{ success: false, error: "Token is required" }\<close>; the state comes back as it
  was, so no outbound call has been made.
\<close>

theorem missing_token_is_rejected:
  assumes "body = JObj members"
    and "map_of members ''token'' = None \<or> map_of members ''token'' = Some JNull
         \<or> map_of members ''token'' = Some (JStr [])"
  shows "auth_google env body res st =
     (Sent (res\<lparr>rp_status := 400,
                rp_body := JObj [(''success'', JBool False), (''error'', JStr ''Token is required'')]\<rparr>), st)
    \<and> calls (snd (auth_google env body res st)) = calls st"
  using assms by (auto simp: auth_google_def)

theorem missing_token_is_rejected_witness:
  "auth_google shop (JObj [(''token'', JNull)]) fresh_reply (begin_with []) =
     (Sent \<lparr>rp_headers = [], rp_status = 400,
            rp_body = JObj [(''success'', JBool False), (''error'', JStr ''Token is required'')]\<rparr>,
      \<lparr>world = [], calls = []\<rparr>)
   \<and> calls (snd (auth_google shop (JObj [(''token'', JNull)]) fresh_reply (begin_with []))) = []"
  using missing_token_is_rejected [of "JObj [(''token'', JNull)]" "[(''token'', JNull)]" shop fresh_reply "begin_with []"]
  by (simp add: fresh_reply_def begin_with_def)

text \<open>
  C3. A request with a token the identity provider accepts, for an email whose lookup
  finds no account: the call after the lookup is the create-account request; once the
  account is created the next and last call is the session-token request; and when
  that yields a token too, the reply has status 200 and carries \<^verbatim>\<open>success: true\<close>,
  the token, the redirect URL and the id, email, first name and last name of the
  created account.
\<close>

theorem first_login_creates_account:
  assumes "get_prop body ''token'' = Inr token" and "truthy token"
    and "verify_call env token (GOOGLE_CLIENT_ID env) st = (Inr payload, st1)"
    and "get_prop payload ''email'' = Inr email"
    and "findCustomerByEmail env email st1 = (found, st2)" and "\<not> truthy found"
    and "createCustomer env payload st2 = (customer, st3)"
    and "createCustomerAccessToken env email st3 = (customerToken, st4)"
  shows "calls st3 = calls st2 @ [Http (create_request env (field payload ''given_name'')
                                         (field payload ''family_name'') email)]
    \<and> (truthy customer \<longrightarrow>
         snd (auth_google env body \<lparr>rp_headers = hs, rp_status = 200, rp_body = b\<rparr> st) = st4
         \<and> calls st4 = calls st3 @ [Http (token_request env email)])
    \<and> (truthy customer \<and> truthy customerToken \<longrightarrow>
         auth_google env body \<lparr>rp_headers = hs, rp_status = 200, rp_body = b\<rparr> st =
           (Sent \<lparr>rp_headers = hs, rp_status = 200,
                  rp_body = JObj
                    [(''success'', JBool True),
                     (''token'', customerToken),
                     (''redirectUrl'', JStr (SHOPIFY_STORE_URL env @ ''/account'')),
                     (''customer'', JObj
                        [(''id'', field customer ''id''),
                         (''email'', field customer ''email''),
                         (''firstName'', field customer ''first_name''),
                         (''lastName'', field customer ''last_name'')])]\<rparr>, st4))"
proof -
  have created: "calls st3 = calls st2 @ [Http (create_request env (field payload ''given_name'')
                                         (field payload ''family_name'') email)]"
    using createCustomer_calls_email [OF assms(4), of env st2] assms(7) by simp
  have issued: "calls st4 = calls st3 @ [Http (token_request env email)]"
    using createCustomerAccessToken_calls [of env email st3] assms(8) by simp
  have flow: "truthy customer \<Longrightarrow> login_flow env token st =
      (if \<not> truthy customerToken
       then (Inl (new_error env ''Failed to generate customer access token''), st4)
       else (success_body env customerToken customer, st4))"
    using login_flow_unfold [OF assms(3,4,5)] provision_create [OF assms(6,7)] assms(8)
    by simp
  have st: "truthy customer \<Longrightarrow>
      snd (auth_google env body \<lparr>rp_headers = hs, rp_status = 200, rp_body = b\<rparr> st) = st4"
    by (simp add: auth_google_state [OF assms(1,2)] flow)
  have ok: "truthy customer \<Longrightarrow> truthy customerToken \<Longrightarrow>
      auth_google env body \<lparr>rp_headers = hs, rp_status = 200, rp_body = b\<rparr> st =
           (Sent \<lparr>rp_headers = hs, rp_status = 200,
                  rp_body = JObj
                    [(''success'', JBool True),
                     (''token'', customerToken),
                     (''redirectUrl'', JStr (SHOPIFY_STORE_URL env @ ''/account'')),
                     (''customer'', JObj
                        [(''id'', field customer ''id''),
                         (''email'', field customer ''email''),
                         (''firstName'', field customer ''first_name''),
                         (''lastName'', field customer ''last_name'')])]\<rparr>, st4)"
    by (simp add: auth_google_truthy [OF assms(1,2)] flow success_body_truthy)
  show ?thesis using created issued st ok by blast
qed

theorem first_login_creates_account_witness:
  "fst (auth_google scripted login_body fresh_reply (begin_with first_login)) =
     Sent \<lparr>rp_headers = [], rp_status = 200,
           rp_body = JObj
             [(''success'', JBool True),
              (''token'', JStr ''session-token''),
              (''redirectUrl'', JStr ''https://shop.example/account''),
              (''customer'', JObj
                 [(''id'', JNum 7),
                  (''email'', JStr ''ada@example.com''),
                  (''firstName'', JStr ''Ada''),
                  (''lastName'', JStr ''Lovelace'')])]\<rparr>"
proof -
  let ?email = "JStr ''ada@example.com''"
  let ?v = "verify_call scripted (JStr ''id-token-of-ada'') (GOOGLE_CLIENT_ID scripted) (begin_with first_login)"
  let ?f = "findCustomerByEmail scripted ?email (snd ?v)"
  let ?c = "createCustomer scripted ada_payload (snd ?f)"
  let ?t = "createCustomerAccessToken scripted ?email (snd ?c)"
  have h1: "get_prop login_body ''token'' = Inr (JStr ''id-token-of-ada'')"
    by (simp add: login_body_def)
  have h2: "truthy (JStr ''id-token-of-ada'')" by simp
  have v: "?v = (Inr ada_payload, snd ?v)" and vw: "world (snd ?v) = first_login"
    by (simp_all add: run_defs scripted_simps first_login_def)
  have h4: "get_prop ada_payload ''email'' = Inr ?email"
    by (simp add: ada_payload_def)
  have f: "fst ?f = JNull" and fw: "world (snd ?f) = first_login\<lparr>sc_answers := tl (sc_answers first_login)\<rparr>"
    using vw by (simp_all add: run_defs scripted_simps first_login_def json_response_reads Let_def
        split: prod.splits)
  have c: "fst ?c = ada_customer"
    and cw: "world (snd ?c) = first_login\<lparr>sc_answers := tl (tl (sc_answers first_login))\<rparr>"
    using fw by (simp_all add: run_defs scripted_simps first_login_def json_response_reads Let_def
        ada_payload_def ada_customer_def split: prod.splits)
  have t: "fst ?t = JStr ''session-token''"
    using cw by (simp_all add: run_defs scripted_simps first_login_def json_response_reads Let_def
        token_granted_def split: prod.splits)
  have h5: "?f = (fst ?f, snd ?f)" and h7: "?c = (fst ?c, snd ?c)" and h8: "?t = (fst ?t, snd ?t)"
    by simp_all
  have h6: "\<not> truthy (fst ?f)" by (simp add: f)
  have tc: "truthy (fst ?c)" by (simp add: c ada_customer_def)
  have tt: "truthy (fst ?t)" by (simp add: t)
  from first_login_creates_account [OF h1 h2 v h4 h5 h6 h7 h8, of "[]" JUndefined] tc tt
  have "auth_google scripted login_body \<lparr>rp_headers = [], rp_status = 200, rp_body = JUndefined\<rparr>
          (begin_with first_login) =
        (Sent \<lparr>rp_headers = [], rp_status = 200,
               rp_body = JObj
                 [(''success'', JBool True),
                  (''token'', fst ?t),
                  (''redirectUrl'', JStr (SHOPIFY_STORE_URL scripted @ ''/account'')),
                  (''customer'', JObj
                     [(''id'', field (fst ?c) ''id''),
                      (''email'', field (fst ?c) ''email''),
                      (''firstName'', field (fst ?c) ''first_name''),
                      (''lastName'', field (fst ?c) ''last_name'')])]\<rparr>, snd ?t)"
    by blast
  then show ?thesis
    by (simp add: fresh_reply_def c t ada_customer_def field_def scripted_simps(4))
qed

text \<open>
  C4. A request with a token the identity provider accepts, for an email whose lookup
  finds an account: the call after the lookup is the credential reset on that
  account's id; once the reset has succeeded the next and last call is the
  session-token request; the calls of the whole request are the verification, the
  lookup, the reset and, after a successful reset, the token request, and none of
  them is a create-account call.
\<close>

theorem returning_login_resets_credential:
  assumes "get_prop body ''token'' = Inr token" and "truthy token"
    and "verify_call env token (GOOGLE_CLIENT_ID env) st = (Inr payload, st1)"
    and "get_prop payload ''email'' = Inr email"
    and "findCustomerByEmail env email st1 = (found, st2)" and "truthy found"
    and "updateCustomerPassword env (field found ''id'') (JStr ''Default@123'') st2 = (updated, st3)"
  shows "calls st3 = calls st2 @ [Http (update_request env (field found ''id'') (JStr ''Default@123''))]
    \<and> (truthy updated \<longrightarrow>
         calls (snd (auth_google env body res st)) = calls st3 @ [Http (token_request env email)])
    \<and> calls (snd (auth_google env body res st)) =
         calls st @
         [VerifyIdToken token (GOOGLE_CLIENT_ID env),
          Http (search_request env email),
          Http (update_request env (field found ''id'') (JStr ''Default@123''))] @
         (if truthy updated then [Http (token_request env email)] else [])
    \<and> list_all (\<lambda>c. \<not> is_create_call env c)
         (drop (length (calls st)) (calls (snd (auth_google env body res st))))"
proof -
  have c1: "calls st1 = calls st @ [VerifyIdToken token (GOOGLE_CLIENT_ID env)]"
    using verify_call_calls [OF assms(3)] .
  have c2: "calls st2 = calls st1 @ [Http (search_request env email)]"
    using findCustomerByEmail_calls [of env email st1] assms(5) by simp
  have c3: "calls st3 = calls st2 @ [Http (update_request env (field found ''id'') (JStr ''Default@123''))]"
    using updateCustomerPassword_calls [of env "field found ''id''" "JStr ''Default@123''" st2] assms(7)
    by simp
  have c4: "calls (snd (createCustomerAccessToken env email st3)) =
      calls st3 @ [Http (token_request env email)]"
    by (rule createCustomerAccessToken_calls)
  have st: "snd (auth_google env body res st) =
      (if truthy updated then snd (createCustomerAccessToken env email st3) else st3)"
    by (simp add: auth_google_state [OF assms(1,2)] login_flow_unfold [OF assms(3,4,5)]
          provision_update [OF assms(6,7)] split: prod.splits)
  have all: "calls (snd (auth_google env body res st)) =
         calls st @
         [VerifyIdToken token (GOOGLE_CLIENT_ID env),
          Http (search_request env email),
          Http (update_request env (field found ''id'') (JStr ''Default@123''))] @
         (if truthy updated then [Http (token_request env email)] else [])"
    by (simp add: st c1 c2 c3 c4)
  have none: "list_all (\<lambda>c. \<not> is_create_call env c)
         (drop (length (calls st)) (calls (snd (auth_google env body res st))))"
    by (simp add: all is_create_call_simps del: is_create_call.simps)
  show ?thesis using c3 c4 st all none by simp
qed

theorem returning_login_resets_credential_witness:
  "calls (snd (auth_google scripted login_body fresh_reply (begin_with second_login))) =
     [VerifyIdToken (JStr ''id-token-of-ada'') ''client-id'',
      Http (search_request scripted (JStr ''ada@example.com'')),
      Http (update_request scripted (JNum 7) (JStr ''Default@123'')),
      Http (token_request scripted (JStr ''ada@example.com''))]"
proof -
  let ?email = "JStr ''ada@example.com''"
  let ?v = "verify_call scripted (JStr ''id-token-of-ada'') (GOOGLE_CLIENT_ID scripted) (begin_with second_login)"
  let ?f = "findCustomerByEmail scripted ?email (snd ?v)"
  let ?u = "updateCustomerPassword scripted (field ada_customer ''id'') (JStr ''Default@123'') (snd ?f)"
  have h1: "get_prop login_body ''token'' = Inr (JStr ''id-token-of-ada'')"
    by (simp add: login_body_def)
  have h2: "truthy (JStr ''id-token-of-ada'')" by simp
  have v: "?v = (Inr ada_payload, snd ?v)" and vw: "world (snd ?v) = second_login"
    by (simp_all add: run_defs scripted_simps second_login_def)
  have h4: "get_prop ada_payload ''email'' = Inr ?email"
    by (simp add: ada_payload_def)
  have f: "fst ?f = ada_customer"
    and fw: "world (snd ?f) = second_login\<lparr>sc_answers := tl (sc_answers second_login)\<rparr>"
    using vw by (simp_all add: run_defs scripted_simps second_login_def json_response_reads Let_def
        ada_customer_def split: prod.splits)
  have u: "fst ?u = JObj [(''id'', JNum 7)]"
    using fw by (simp_all add: run_defs scripted_simps second_login_def json_response_reads Let_def
        split: prod.splits)
  have h5: "?f = (ada_customer, snd ?f)" using f by (metis prod.collapse)
  have h7: "?u = (JObj [(''id'', JNum 7)], snd ?u)" using u by (metis prod.collapse)
  have h6: "truthy ada_customer" by (simp add: ada_customer_def)
  from returning_login_resets_credential [OF h1 h2 v h4 h5 h6 h7, of fresh_reply]
  have "calls (snd (auth_google scripted login_body fresh_reply (begin_with second_login))) =
         calls (begin_with second_login) @
         [VerifyIdToken (JStr ''id-token-of-ada'') (GOOGLE_CLIENT_ID scripted),
          Http (search_request scripted ?email),
          Http (update_request scripted (field ada_customer ''id'') (JStr ''Default@123''))] @
         (if truthy (JObj [(''id'', JNum 7)]) then [Http (token_request scripted ?email)] else [])"
    by blast
  then show ?thesis
    by (simp add: ada_customer_def field_def begin_with_def scripted_simps(3))
qed

text \<open>
  C5. Two runs of the endpoint on the same request, in worlds that differ only in the
  answer to the lookup: in the first the answer has a content type that contains
  \<^verbatim>\<open>html\<close>, in the second it is a JSON document with an empty customer list. In both
  the lookup returns \<^verbatim>\<open>null\<close>; the two runs give the same reply, make the same calls
  and leave the same world; and the call after the lookup is the create-account
  request.
\<close>

theorem html_lookup_is_no_account:
  assumes "get_prop body ''token'' = Inr token" and "truthy token"
    and "verify_call env token (GOOGLE_CLIENT_ID env) sa = (Inr payload, sa1)"
    and "verify_call env token (GOOGLE_CLIENT_ID env) sb = (Inr payload, sb1)"
    and "calls sa = calls sb"
    and "get_prop payload ''email'' = Inr email"
    and "axios env (search_request env email) (world sa1) = (Inr ra, w)"
    and "html_content_type ra"
    and "axios env (search_request env email) (world sb1) = (Inr rb, w)"
    and "\<not> html_content_type rb"
    and "rs_data rb = JObj [(''customers'', JArr [])]"
  shows "fst (findCustomerByEmail env email sa1) = JNull
    \<and> findCustomerByEmail env email sa1 = findCustomerByEmail env email sb1
    \<and> auth_google env body res sa = auth_google env body res sb
    \<and> (\<exists>rest. calls (snd (auth_google env body res sa)) =
           calls sa @
           [VerifyIdToken token (GOOGLE_CLIENT_ID env),
            Http (search_request env email),
            Http (create_request env (field payload ''given_name'')
                    (field payload ''family_name'') email)] @ rest)"
proof -
  let ?st2 = "\<lparr>world = w, calls = calls sa1 @ [Http (search_request env email)]\<rparr>"
  have same: "calls sb1 = calls sa1"
    using verify_call_calls [OF assms(3)] verify_call_calls [OF assms(4)] assms(5) by simp
  have fa: "findCustomerByEmail env email sa1 = (JNull, ?st2)"
    by (rule findCustomerByEmail_html [OF assms(7,8)])
  have fb: "findCustomerByEmail env email sb1 = (JNull, ?st2)"
    using findCustomerByEmail_empty [OF assms(9,10,11)] same by simp
  have flow: "login_flow env token sa = login_flow env token sb"
    by (simp add: login_flow_unfold [OF assms(3) assms(6) fa]
          login_flow_unfold [OF assms(4) assms(6) fb])
  have reply: "auth_google env body res sa = auth_google env body res sb"
    by (simp add: auth_google_truthy [OF assms(1,2)] flow)
  have path: "\<exists>rest. calls (snd (auth_google env body res sa)) =
           calls sa @
           [VerifyIdToken token (GOOGLE_CLIENT_ID env),
            Http (search_request env email),
            Http (create_request env (field payload ''given_name'')
                    (field payload ''family_name'') email)] @ rest"
    using auth_google_create_path [OF assms(1,2,3) assms(6) fa, of res] by simp
  show ?thesis using fa fb reply path by simp
qed

theorem html_lookup_is_no_account_witness:
  "auth_google scripted login_body fresh_reply (begin_with lookup_html) =
   auth_google scripted login_body fresh_reply (begin_with first_login)"
proof -
  let ?email = "JStr ''ada@example.com''"
  let ?va = "verify_call scripted (JStr ''id-token-of-ada'') (GOOGLE_CLIENT_ID scripted) (begin_with lookup_html)"
  let ?vb = "verify_call scripted (JStr ''id-token-of-ada'') (GOOGLE_CLIENT_ID scripted) (begin_with first_login)"
  let ?w = "\<lparr>sc_payload = ada_payload,
             sc_answers = [Inr (json_response 201 (JObj [(''customer'', ada_customer)])),
                           Inr (json_response 200 (token_granted ''session-token''))]\<rparr>"
  have h1: "get_prop login_body ''token'' = Inr (JStr ''id-token-of-ada'')"
    by (simp add: login_body_def)
  have h2: "truthy (JStr ''id-token-of-ada'')" by simp
  have va: "?va = (Inr ada_payload, snd ?va)" and vaw: "world (snd ?va) = lookup_html"
    by (simp_all add: run_defs scripted_simps lookup_html_def)
  have vb: "?vb = (Inr ada_payload, snd ?vb)" and vbw: "world (snd ?vb) = first_login"
    by (simp_all add: run_defs scripted_simps first_login_def)
  have h5: "calls (begin_with lookup_html) = calls (begin_with first_login)"
    by (simp add: begin_with_def)
  have h6: "get_prop ada_payload ''email'' = Inr ?email"
    by (simp add: ada_payload_def)
  have h7: "axios scripted (search_request scripted ?email) (world (snd ?va)) =
      (Inr (html_response 200 ''<html>Sign in</html>''), ?w)"
    by (simp add: vaw scripted_simps(1)) (simp add: lookup_html_def)
  have h8: "html_content_type (html_response 200 ''<html>Sign in</html>'')"
    by (simp add: html_content_type_def html_response_def)
  have h9: "axios scripted (search_request scripted ?email) (world (snd ?vb)) =
      (Inr (json_response 200 (JObj [(''customers'', JArr [])])), ?w)"
    by (simp add: vbw scripted_simps(1)) (simp add: first_login_def)
  have h10: "\<not> html_content_type (json_response 200 (JObj [(''customers'', JArr [])]))"
    by (simp add: html_content_type_def json_response_def)
  have h11: "rs_data (json_response 200 (JObj [(''customers'', JArr [])])) =
      JObj [(''customers'', JArr [])]"
    by (simp add: json_response_def)
  from html_lookup_is_no_account [OF h1 h2 va vb h5 h6 h7 h8 h9 h10 h11, of fresh_reply]
  show ?thesis by blast
qed

text \<open>
  C6, as amended. After the token-presence check, when the identity provider rejects
  the token, or the payload has no readable email, or the create-account call or the
  credential-reset call delivers no account (the call throws, or its answer is an
  HTML page, has an error member or has no customer), or the session-token call
  delivers no token (the same, or the mutation answers with user errors, or without
  access token), the reply has status 500 and the body
  \<^verbatim>\<open>{ success: false, error: "Authentication failed", details, stack }\<close>, with the
  message and the stack of the error, and without a token member.
\<close>

theorem failed_step_gives_500:
  assumes "get_prop body ''token'' = Inr token" and "truthy token"
    and "failure env token st error"
  shows "fst (auth_google env body res st) =
           Sent (res\<lparr>rp_status := 500,
                      rp_body := JObj [(''success'', JBool False),
                                       (''error'', JStr ''Authentication failed''),
                                       (''details'', JStr (message error)),
                                       (''stack'', JStr (stack error))]\<rparr>)
    \<and> get_prop (JObj [(''success'', JBool False),
                       (''error'', JStr ''Authentication failed''),
                       (''details'', JStr (message error)),
                       (''stack'', JStr (stack error))]) ''token'' = Inr JUndefined"
proof -
  obtain st' where "login_flow env token st = (Inl error, st')"
    using login_flow_failure [OF assms(3)] by blast
  then show ?thesis
    by (simp add: auth_google_truthy [OF assms(1,2)])
qed

theorem failed_step_gives_500_witness:
  "fst (auth_google scripted login_body fresh_reply (begin_with token_is_refused)) =
     Sent \<lparr>rp_headers = [], rp_status = 500,
           rp_body = JObj [(''success'', JBool False),
                           (''error'', JStr ''Authentication failed''),
                           (''details'', JStr ''Failed to generate customer access token''),
                           (''stack'', JStr ''Error: Failed to generate customer access token'')]\<rparr>
   \<and> fst (auth_google scripted login_body fresh_reply (begin_with create_is_down)) =
     Sent \<lparr>rp_headers = [], rp_status = 500,
           rp_body = JObj [(''success'', JBool False),
                           (''error'', JStr ''Authentication failed''),
                           (''details'', JStr ''Failed to create customer in Shopify''),
                           (''stack'', JStr ''Error: Failed to create customer in Shopify'')]\<rparr>"
proof -
  let ?email = "JStr ''ada@example.com''"
  have h1: "get_prop login_body ''token'' = Inr (JStr ''id-token-of-ada'')"
    by (simp add: login_body_def)
  have h2: "truthy (JStr ''id-token-of-ada'')" by simp
  have h4: "get_prop ada_payload ''email'' = Inr ?email"
    by (simp add: ada_payload_def)
  have refused: "fst (auth_google scripted login_body fresh_reply (begin_with token_is_refused)) =
     Sent \<lparr>rp_headers = [], rp_status = 500,
           rp_body = JObj [(''success'', JBool False),
                           (''error'', JStr ''Authentication failed''),
                           (''details'', JStr ''Failed to generate customer access token''),
                           (''stack'', JStr ''Error: Failed to generate customer access token'')]\<rparr>"
  proof -
    let ?v = "verify_call scripted (JStr ''id-token-of-ada'') (GOOGLE_CLIENT_ID scripted) (begin_with token_is_refused)"
    let ?f = "findCustomerByEmail scripted ?email (snd ?v)"
    let ?c = "createCustomer scripted ada_payload (snd ?f)"
    let ?p = "provision scripted ada_payload JNull (snd ?f)"
    have v: "?v = (Inr ada_payload, snd ?v)" and vw: "world (snd ?v) = token_is_refused"
      by (simp_all add: run_defs scripted_simps token_is_refused_def)
    have f: "fst ?f = JNull"
      and fw: "world (snd ?f) = token_is_refused\<lparr>sc_answers := tl (sc_answers token_is_refused)\<rparr>"
      using vw by (simp_all add: run_defs scripted_simps token_is_refused_def json_response_reads Let_def
          split: prod.splits)
    have c: "fst ?c = ada_customer"
      and cw: "world (snd ?c) = token_is_refused\<lparr>sc_answers := tl (tl (sc_answers token_is_refused))\<rparr>"
      using fw by (simp_all add: run_defs scripted_simps token_is_refused_def json_response_reads Let_def
          ada_payload_def ada_customer_def split: prod.splits)
    have h5: "?f = (JNull, snd ?f)" using f by (metis prod.collapse)
    have h7: "?c = (ada_customer, snd ?c)" using c by (metis prod.collapse)
    have p: "?p = (Inr ada_customer, snd ?c)"
      using provision_create [OF _ h7, of JNull] by (simp add: ada_customer_def)
    have a: "axios scripted (token_request scripted ?email) (world (snd ?c)) =
        (Inr (json_response 200 token_refused),
         token_is_refused\<lparr>sc_answers := tl (tl (tl (sc_answers token_is_refused)))\<rparr>)"
      by (simp add: cw scripted_simps(1)) (simp add: token_is_refused_def)
    have ue: "user_errors (json_response 200 token_refused) =
        JArr (JObj [(''field'', JNull), (''message'', JStr ''Unidentified customer'')] # [])"
      by (simp add: user_errors_def json_response_def token_refused_def field_def)
    have "failure scripted (JStr ''id-token-of-ada'') (begin_with token_is_refused)
            (new_error scripted ''Failed to generate customer access token'')"
      by (rule failure.user_error [OF v h4 h5 p a ue])
    from failed_step_gives_500 [OF h1 h2 this, of fresh_reply]
    show ?thesis
      by (simp add: fresh_reply_def new_error_def scripted_simps(5))
  qed
  have down: "fst (auth_google scripted login_body fresh_reply (begin_with create_is_down)) =
     Sent \<lparr>rp_headers = [], rp_status = 500,
           rp_body = JObj [(''success'', JBool False),
                           (''error'', JStr ''Authentication failed''),
                           (''details'', JStr ''Failed to create customer in Shopify''),
                           (''stack'', JStr ''Error: Failed to create customer in Shopify'')]\<rparr>"
  proof -
    let ?v = "verify_call scripted (JStr ''id-token-of-ada'') (GOOGLE_CLIENT_ID scripted) (begin_with create_is_down)"
    let ?f = "findCustomerByEmail scripted ?email (snd ?v)"
    have v: "?v = (Inr ada_payload, snd ?v)" and vw: "world (snd ?v) = create_is_down"
      by (simp_all add: run_defs scripted_simps create_is_down_def)
    have f: "fst ?f = JNull"
      and fw: "world (snd ?f) = create_is_down\<lparr>sc_answers := tl (sc_answers create_is_down)\<rparr>"
      using vw by (simp_all add: run_defs scripted_simps create_is_down_def json_response_reads Let_def
          split: prod.splits)
    have h5: "?f = (JNull, snd ?f)" using f by (metis prod.collapse)
    have h6: "\<not> truthy JNull" by simp
    have a: "axios scripted (create_request scripted (field ada_payload ''given_name'')
                 (field ada_payload ''family_name'') ?email) (world (snd ?f)) =
        (Inl network_error, create_is_down\<lparr>sc_answers := tl (tl (sc_answers create_is_down))\<rparr>)"
      by (simp add: fw scripted_simps(1)) (simp add: create_is_down_def)
    have d: "declined (Inl network_error) ''customer''"
      by (simp add: declined_def)
    have "failure scripted (JStr ''id-token-of-ada'') (begin_with create_is_down)
            (new_error scripted ''Failed to create customer in Shopify'')"
      by (rule failure.creation [OF v h4 h5 h6 a d])
    from failed_step_gives_500 [OF h1 h2 this, of fresh_reply]
    show ?thesis
      by (simp add: fresh_reply_def new_error_def scripted_simps(5))
  qed
  show ?thesis using refused down by simp
qed

text \<open>
  C6 as it is stated fails: when the lookup call throws, which is a downstream failure
  after the token-presence check, and the calls after it succeed, the reply is a 200
  with a token.
\<close>

theorem lookup_failure_gives_200:
  "axios scripted (search_request scripted (JStr ''ada@example.com'')) lookup_down =
     (Inl network_error, lookup_down\<lparr>sc_answers := tl (sc_answers lookup_down)\<rparr>)
   \<and> fst (auth_google scripted login_body fresh_reply (begin_with lookup_down)) =
     Sent \<lparr>rp_headers = [], rp_status = 200,
           rp_body = JObj
             [(''success'', JBool True),
              (''token'', JStr ''session-token''),
              (''redirectUrl'', JStr ''https://shop.example/account''),
              (''customer'', JObj
                 [(''id'', JNum 7),
                  (''email'', JStr ''ada@example.com''),
                  (''firstName'', JStr ''Ada''),
                  (''lastName'', JStr ''Lovelace'')])]\<rparr>"
  by (simp add: scripted_simps(1) lookup_down_def)
     (simp add: auth_google_def login_flow_def provision_def success_body_def run_defs
        scripted_simps login_body_def fresh_reply_def json_response_reads Let_def
        ada_payload_def ada_customer_def token_granted_def new_error_def)

text \<open>
  C7. The claim: two requests in a row with valid tokens for the same email both get a
  200 with a token, the second by the reset path. Against a commerce platform that
  issues a session token only to the credential it holds, the second request does
  find the account the first one created and does take the reset path, but both
  requests end in a 500 without token: the credential written is \<^verbatim>\<open>Default@123\<close>
  and the credential presented to the session-token mutation is another.
\<close>

theorem two_logins_in_a_row:
  "fst (auth_google shop login_body fresh_reply (begin_with [])) =
     Sent \<lparr>rp_headers = [], rp_status = 500,
           rp_body = JObj [(''success'', JBool False),
                           (''error'', JStr ''Authentication failed''),
                           (''details'', JStr ''Failed to generate customer access token''),
                           (''stack'', JStr ''Error: Failed to generate customer access token'')]\<rparr>
   \<and> fst (auth_google shop login_body fresh_reply
            (snd (auth_google shop login_body fresh_reply (begin_with [])))) =
     Sent \<lparr>rp_headers = [], rp_status = 500,
           rp_body = JObj [(''success'', JBool False),
                           (''error'', JStr ''Authentication failed''),
                           (''details'', JStr ''Failed to generate customer access token''),
                           (''stack'', JStr ''Error: Failed to generate customer access token'')]\<rparr>
   \<and> calls (snd (auth_google shop login_body fresh_reply
            (snd (auth_google shop login_body fresh_reply (begin_with []))))) =
     [VerifyIdToken (JStr ''id-token-of-ada'') ''client-id'',
      Http (search_request shop (JStr ''ada@example.com'')),
      Http (create_request shop (JStr ''Ada'') (JStr ''Lovelace'') (JStr ''ada@example.com'')),
      Http (token_request shop (JStr ''ada@example.com'')),
      VerifyIdToken (JStr ''id-token-of-ada'') ''client-id'',
      Http (search_request shop (JStr ''ada@example.com'')),
      Http (update_request shop (JNum 1) (JStr ''Default@123'')),
      Http (token_request shop (JStr ''ada@example.com''))]"
  by code_simp

text \<open>
  C8, as amended. A request that the installed middleware pass on to the routes and
  that is not a \<^verbatim>\<open>POST\<close> to a path matching \<^verbatim>\<open>/api/auth/google\<close> is answered with
  status 404 and the body \<^verbatim>\<open>{ error: "Not Found" }\<close>, and no outbound call is made.
\<close>

theorem unmatched_request_is_not_found:
  assumes "run_middleware [cors_mw ex, json_mw ex, relaxed_headers] req fresh_reply = Pass req' res"
    and "\<not> (hr_method req' = ''POST'' \<and> route_match ex ''/api/auth/google'' (hr_path req'))"
  shows "app ex env req st =
     (Sent (res\<lparr>rp_status := 404, rp_body := JObj [(''error'', JStr ''Not Found'')]\<rparr>), st)"
  using assms(2) by (auto simp: app_def assms(1) not_found_def simp del: run_middleware.simps)

theorem unmatched_request_is_not_found_witness:
  "app packages shop anything (begin_with []) =
     (Sent \<lparr>rp_headers = [(''Access-Control-Allow-Origin'', ''*''),
                          (''Cross-Origin-Opener-Policy'', ''same-origin-allow-popups''),
                          (''Cross-Origin-Embedder-Policy'', ''unsafe-none'')],
            rp_status = 404,
            rp_body = JObj [(''error'', JStr ''Not Found'')]\<rparr>, begin_with [])"
proof -
  let ?req = "anything\<lparr>hr_body := JObj []\<rparr>"
  let ?res = "\<lparr>rp_headers = [(''Access-Control-Allow-Origin'', ''*''),
                          (''Cross-Origin-Opener-Policy'', ''same-origin-allow-popups''),
                          (''Cross-Origin-Embedder-Policy'', ''unsafe-none'')],
            rp_status = 200, rp_body = JUndefined\<rparr>"
  have m: "run_middleware [cors_mw packages, json_mw packages, relaxed_headers] anything fresh_reply =
      Pass ?req ?res"
    by (simp add: app_defs anything_def)
  have n: "\<not> (hr_method ?req = ''POST'' \<and> route_match packages ''/api/auth/google'' (hr_path ?req))"
    by (simp add: anything_def)
  from unmatched_request_is_not_found [OF m n, of shop "begin_with []"]
  show ?thesis by simp
qed

text \<open>
  C8 as it is stated fails: an \<^verbatim>\<open>OPTIONS\<close> request is not a \<^verbatim>\<open>POST\<close> to the login
  path, and it is answered by the \<^verbatim>\<open>cors()\<close> middleware with status 204 before any
  route is reached.
\<close>

theorem preflight_is_not_404:
  "app packages shop preflight (begin_with []) =
     (Sent \<lparr>rp_headers = [(''Access-Control-Allow-Origin'', ''*'')],
            rp_status = 204, rp_body = JUndefined\<rparr>, begin_with [])"
  by (simp add: app_defs preflight_def)

text \<open>
  C9. When the HTTP call of the account lookup throws, whatever the error (a transport
  failure, a status the client rejects), the lookup returns \<^verbatim>\<open>null\<close>, and the request
  goes on as for an email without account: the next call is the create-account
  request.
\<close>

theorem lookup_exception_is_not_found:
  assumes "get_prop body ''token'' = Inr token" and "truthy token"
    and "verify_call env token (GOOGLE_CLIENT_ID env) st = (Inr payload, st1)"
    and "get_prop payload ''email'' = Inr email"
    and "axios env (search_request env email) (world st1) = (Inl error, w)"
  shows "findCustomerByEmail env email st1 =
           (JNull, \<lparr>world = w, calls = calls st1 @ [Http (search_request env email)]\<rparr>)
    \<and> calls (snd (auth_google env body res st)) =
         calls st @
         [VerifyIdToken token (GOOGLE_CLIENT_ID env),
          Http (search_request env email),
          Http (create_request env (field payload ''given_name'') (field payload ''family_name'') email)] @
         (if truthy (fst (createCustomer env payload
                            \<lparr>world = w, calls = calls st1 @ [Http (search_request env email)]\<rparr>))
          then [Http (token_request env email)] else [])"
  using findCustomerByEmail_thrown [OF assms(5)]
    auth_google_create_path [OF assms(1,2,3,4) findCustomerByEmail_thrown [OF assms(5)], of res]
  by simp

theorem lookup_exception_is_not_found_witness:
  "take 3 (calls (snd (auth_google scripted login_body fresh_reply (begin_with lookup_down)))) =
     [VerifyIdToken (JStr ''id-token-of-ada'') ''client-id'',
      Http (search_request scripted (JStr ''ada@example.com'')),
      Http (create_request scripted (JStr ''Ada'') (JStr ''Lovelace'') (JStr ''ada@example.com''))]"
proof -
  let ?email = "JStr ''ada@example.com''"
  let ?v = "verify_call scripted (JStr ''id-token-of-ada'') (GOOGLE_CLIENT_ID scripted) (begin_with lookup_down)"
  have h1: "get_prop login_body ''token'' = Inr (JStr ''id-token-of-ada'')"
    by (simp add: login_body_def)
  have h2: "truthy (JStr ''id-token-of-ada'')" by simp
  have v: "?v = (Inr ada_payload, snd ?v)" and vw: "world (snd ?v) = lookup_down"
    by (simp_all add: run_defs scripted_simps lookup_down_def)
  have h4: "get_prop ada_payload ''email'' = Inr ?email"
    by (simp add: ada_payload_def)
  have h5: "axios scripted (search_request scripted ?email) (world (snd ?v)) =
      (Inl network_error, lookup_down\<lparr>sc_answers := tl (sc_answers lookup_down)\<rparr>)"
    by (simp add: vw scripted_simps(1)) (simp add: lookup_down_def)
  from lookup_exception_is_not_found [OF h1 h2 v h4 h5, of fresh_reply]
  have "\<exists>rest. calls (snd (auth_google scripted login_body fresh_reply (begin_with lookup_down))) =
         calls (begin_with lookup_down) @
         [VerifyIdToken (JStr ''id-token-of-ada'') (GOOGLE_CLIENT_ID scripted),
          Http (search_request scripted ?email),
          Http (create_request scripted (field ada_payload ''given_name'')
                  (field ada_payload ''family_name'') ?email)] @ rest"
    by blast
  then show ?thesis
    by (auto simp: begin_with_def ada_payload_def field_def scripted_simps(3))
qed

text \<open>
  C10. On the existing-account path the customer fields of the 200 reply are those of
  the account the lookup returned; the account returned by the credential reset is
  only tested for truthiness and does not occur in the reply.
\<close>

theorem reply_fields_come_from_lookup:
  assumes "get_prop body ''token'' = Inr token" and "truthy token"
    and "verify_call env token (GOOGLE_CLIENT_ID env) st = (Inr payload, st1)"
    and "get_prop payload ''email'' = Inr email"
    and "findCustomerByEmail env email st1 = (found, st2)" and "truthy found"
    and "updateCustomerPassword env (field found ''id'') (JStr ''Default@123'') st2 = (updated, st3)"
    and "truthy updated"
    and "createCustomerAccessToken env email st3 = (customerToken, st4)"
    and "truthy customerToken"
  shows "auth_google env body \<lparr>rp_headers = hs, rp_status = 200, rp_body = b\<rparr> st =
     (Sent \<lparr>rp_headers = hs, rp_status = 200,
            rp_body = JObj
              [(''success'', JBool True),
               (''token'', customerToken),
               (''redirectUrl'', JStr (SHOPIFY_STORE_URL env @ ''/account'')),
               (''customer'', JObj
                  [(''id'', field found ''id''),
                   (''email'', field found ''email''),
                   (''firstName'', field found ''first_name''),
                   (''lastName'', field found ''last_name'')])]\<rparr>, st4)"
  by (simp add: auth_google_truthy [OF assms(1,2)] login_flow_unfold [OF assms(3,4,5)]
        provision_update [OF assms(6,7)] assms(8,9,10) success_body_truthy [OF assms(6)])

theorem reply_fields_come_from_lookup_witness:
  "fst (auth_google scripted login_body fresh_reply (begin_with second_login)) =
     Sent \<lparr>rp_headers = [], rp_status = 200,
           rp_body = JObj
             [(''success'', JBool True),
              (''token'', JStr ''session-token''),
              (''redirectUrl'', JStr ''https://shop.example/account''),
              (''customer'', JObj
                 [(''id'', JNum 7),
                  (''email'', JStr ''ada@example.com''),
                  (''firstName'', JStr ''Ada''),
                  (''lastName'', JStr ''Lovelace'')])]\<rparr>"
proof -
  let ?email = "JStr ''ada@example.com''"
  let ?v = "verify_call scripted (JStr ''id-token-of-ada'') (GOOGLE_CLIENT_ID scripted) (begin_with second_login)"
  let ?f = "findCustomerByEmail scripted ?email (snd ?v)"
  let ?u = "updateCustomerPassword scripted (field ada_customer ''id'') (JStr ''Default@123'') (snd ?f)"
  let ?t = "createCustomerAccessToken scripted ?email (snd ?u)"
  have h1: "get_prop login_body ''token'' = Inr (JStr ''id-token-of-ada'')"
    by (simp add: login_body_def)
  have h2: "truthy (JStr ''id-token-of-ada'')" by simp
  have v: "?v = (Inr ada_payload, snd ?v)" and vw: "world (snd ?v) = second_login"
    by (simp_all add: run_defs scripted_simps second_login_def)
  have h4: "get_prop ada_payload ''email'' = Inr ?email"
    by (simp add: ada_payload_def)
  have f: "fst ?f = ada_customer"
    and fw: "world (snd ?f) = second_login\<lparr>sc_answers := tl (sc_answers second_login)\<rparr>"
    using vw by (simp_all add: run_defs scripted_simps second_login_def json_response_reads Let_def
        ada_customer_def split: prod.splits)
  have u: "fst ?u = JObj [(''id'', JNum 7)]"
    and uw: "world (snd ?u) = second_login\<lparr>sc_answers := tl (tl (sc_answers second_login))\<rparr>"
    using fw by (simp_all add: run_defs scripted_simps second_login_def json_response_reads Let_def
        split: prod.splits)
  have t: "fst ?t = JStr ''session-token''"
    using uw by (simp_all add: run_defs scripted_simps second_login_def json_response_reads Let_def
        token_granted_def split: prod.splits)
  have h5: "?f = (ada_customer, snd ?f)" using f by (metis prod.collapse)
  have h7: "?u = (JObj [(''id'', JNum 7)], snd ?u)" using u by (metis prod.collapse)
  have h9: "?t = (JStr ''session-token'', snd ?t)" using t by (metis prod.collapse)
  have h6: "truthy ada_customer" by (simp add: ada_customer_def)
  have h8: "truthy (JObj [(''id'', JNum 7)])" by simp
  have h10: "truthy (JStr ''session-token'')" by simp
  from reply_fields_come_from_lookup [OF h1 h2 v h4 h5 h6 h7 h8 h9 h10, of "[]" JUndefined]
  show ?thesis
    by (simp add: fresh_reply_def ada_customer_def field_def scripted_simps(4))
qed

end
